theory Spec2Isabelle
  imports Complex_Main "HOL-Library.Word"
begin

unbundle bit_operations_syntax

section \<open>Data model\<close>

text \<open>
  The embedding follows \<^verbatim>\<open>src/structures/StatusUpdater.ts\<close> and
  \<^verbatim>\<open>src/structures/WebhookLogger.ts\<close>.

  JavaScript strings are modelled as \<^typ>\<open>string\<close>; the only string operations the
  code applies itself are the test for the empty string and \<^verbatim>\<open>length\<close>.

  An \<^verbatim>\<open>ActivityOptions\<close> object of discord.js has four optional fields. A field that
  is \<^verbatim>\<open>undefined\<close> is \<open>None\<close>. The \<^verbatim>\<open>type\<close> field is an activity type name or a
  number, the \<^verbatim>\<open>shardID\<close> field a number or a list of numbers.
\<close>

datatype kind = KStr string | KNum int

datatype shard = ShardNum int | ShardList "int list"

record ActivityOptions =
  type :: "kind option"
  name :: "string option"
  url :: "string option"
  shardID :: "shard option"

datatype js_error = Error string | TypeError string

text \<open>The truth value JavaScript gives to the \<^verbatim>\<open>type\<close> field in \<^verbatim>\<open>info.type || 'PLAYING'\<close>.\<close>

fun truthy_kind :: "kind option \<Rightarrow> bool" where
  "truthy_kind None = False"
| "truthy_kind (Some (KStr s)) = (s \<noteq> [])"
| "truthy_kind (Some (KNum n)) = (n \<noteq> 0)"

definition template :: "string \<Rightarrow> string \<Rightarrow> ActivityOptions" where
  "template t n = \<lparr>type = Some (KStr t), name = Some n, url = None, shardID = None\<rparr>"

definition defaultStatuses :: "ActivityOptions list" where
  "defaultStatuses =
    [template ''PLAYING'' ''with {users} users'',
     template ''LISTENING'' ''{users} users'',
     template ''WATCHING'' ''over {users} users'',
     template ''PLAYING'' ''in {guilds} servers'',
     template ''WATCHING'' ''{website}'',
     template ''PLAYING'' ''{prefix}help for help'',
     template ''WATCHING'' ''{guilds} servers'']"

section \<open>StatusUpdater: construction, initialisation, the statuses accessor\<close>

text \<open>
  The third constructor argument is declared \<^verbatim>\<open>ActivityOptions[] | string\<close> and optional,
  but the constructor tests it at run time, so the model takes any JavaScript value:
  \<open>Obj\<close> stands for an object that is not an array.
\<close>

datatype ctor_arg =
    Undefined
  | Null
  | Str string
  | Arr "ActivityOptions list"
  | Num int
  | Bool bool
  | Obj

fun truthy :: "ctor_arg \<Rightarrow> bool" where
  "truthy Undefined = False"
| "truthy Null = False"
| "truthy (Str s) = (s \<noteq> [])"
| "truthy (Arr xs) = True"
| "truthy (Num n) = (n \<noteq> 0)"
| "truthy (Bool b) = b"
| "truthy Obj = True"

text \<open>
  The fields of the class. \<open>private_statuses\<close> is the field \<^verbatim>\<open>_statuses\<close>, which has no
  initialiser and is \<^verbatim>\<open>undefined\<close> (\<open>None\<close>) until assigned. \<open>pending\<close> is not a field
  of the class: it records that the promise started by \<^verbatim>\<open>_init\<close> in the constructor has
  not settled yet. The references \<^verbatim>\<open>client\<close> and \<^verbatim>\<open>parser\<close> are kept in the world
  state of section \<open>updateStatus\<close>.
\<close>

record StatusUpdater =
  statusUrl :: "string option"
  private_statuses :: "ActivityOptions list option"
  isReady :: bool
  pending :: bool

definition blank :: StatusUpdater where
  "blank = \<lparr>statusUrl = None, private_statuses = None, isReady = False, pending = False\<rparr>"

text \<open>
  The constructor. \<^verbatim>\<open>isUrl\<close> comes from \<^verbatim>\<open>src/util/Validators\<close>, which is not among
  the sources, and is a parameter. A \<^verbatim>\<open>throw\<close> is \<open>Inl\<close>. The call \<^verbatim>\<open>this._init()\<close> at
  the end starts the asynchronous initialisation and cannot throw synchronously: both
  \<^verbatim>\<open>_init\<close> and \<^verbatim>\<open>_getStatuses\<close> are \<^verbatim>\<open>async\<close>.
\<close>

definition StatusUpdater_new :: "(string \<Rightarrow> bool) \<Rightarrow> ctor_arg \<Rightarrow> js_error + StatusUpdater" where
  "StatusUpdater_new isUrl statuses =
    (case
       (if truthy statuses then
          (case statuses of
             Str u \<Rightarrow>
               if \<not> isUrl u then Inl (Error ''Invalid statuses URL'')
               else Inr (blank\<lparr>statusUrl := Some u\<rparr>)
           | Arr xs \<Rightarrow> Inr (blank\<lparr>private_statuses := Some xs\<rparr>)
           | _ \<Rightarrow> Inl (Error ''Invalid status options.''))
        else Inr blank)
     of Inl e \<Rightarrow> Inl e
      | Inr s \<Rightarrow> Inr (s\<lparr>isReady := False, pending := True\<rparr>))"

text \<open>
  The outcome of \<^verbatim>\<open>Axios.get(this.statusUrl)\<close>: the response data, or a rejection.
\<close>

datatype fetch_outcome = FetchOk "ActivityOptions list" | FetchFail js_error

text \<open>
  \<^verbatim>\<open>_getStatuses\<close>: with a (non-empty) URL the fetched data is stored in \<^verbatim>\<open>_statuses\<close>
  and returned; without one the default list is returned and no field is assigned.
\<close>

definition getStatuses ::
  "fetch_outcome \<Rightarrow> StatusUpdater \<Rightarrow> js_error + (ActivityOptions list \<times> StatusUpdater)" where
  "getStatuses out s =
    (case statusUrl s of
       Some u \<Rightarrow>
         if u \<noteq> [] then
           (case out of
              FetchOk d \<Rightarrow> Inr (d, s\<lparr>private_statuses := Some d\<rparr>)
            | FetchFail e \<Rightarrow> Inl e)
         else Inr (defaultStatuses, s)
     | None \<Rightarrow> Inr (defaultStatuses, s))"

text \<open>
  \<^verbatim>\<open>_init\<close>, at the time its promise settles: the \<^verbatim>\<open>then\<close> callback sets \<^verbatim>\<open>isReady\<close>
  and ignores the value; the \<^verbatim>\<open>catch\<close> callback rethrows and assigns nothing. A
  promise settles once: when nothing is pending the state is unchanged.
\<close>

definition init :: "fetch_outcome \<Rightarrow> StatusUpdater \<Rightarrow> StatusUpdater" where
  "init out s =
    (if pending s then
       (case getStatuses out s of
          Inr (_, s') \<Rightarrow> s'\<lparr>isReady := True, pending := False\<rparr>
        | Inl e \<Rightarrow> s\<lparr>pending := False\<rparr>)
     else s)"

text \<open>The accessor \<^verbatim>\<open>statuses\<close>; \<open>None\<close> is \<^verbatim>\<open>undefined\<close>.\<close>

definition statuses :: "StatusUpdater \<Rightarrow> ActivityOptions list option" where
  "statuses s = (if \<not> isReady s then Some defaultStatuses else private_statuses s)"

section \<open>Collaborators\<close>

text \<open>
  \<^verbatim>\<open>updateStatus\<close> talks to three collaborators whose code is outside
  \<^verbatim>\<open>StatusUpdater.ts\<close>: the two methods of \<^verbatim>\<open>VariableParser\<close> and the presence-setting
  call \<^verbatim>\<open>client.user.setActivity\<close> of discord.js. They are parameters of the model,
  over an arbitrary parser state \<open>'p\<close> and presence type \<open>'r\<close>. The promise returned
  by \<^verbatim>\<open>setActivity\<close> is modelled by its outcome: \<open>Inr\<close> the presence it resolves to,
  \<open>Inl\<close> the reason it rejects with.
\<close>

record ('p, 'r) host =
  updateData :: "nat \<Rightarrow> nat \<Rightarrow> nat \<Rightarrow> 'p \<Rightarrow> 'p"
  parse :: "'p \<Rightarrow> string option \<Rightarrow> string"
  setActivity :: "ActivityOptions \<Rightarrow> js_error + 'r"

text \<open>
  The world a call of \<^verbatim>\<open>updateStatus\<close> runs in. Activity objects that are passed
  around by reference live in \<open>heap\<close>, a store from addresses to objects; \<open>next_ref\<close>
  is the first address not yet allocated. \<open>parser\<close> is the state of the shared
  \<^verbatim>\<open>VariableParser\<close>; \<open>users\<close>, \<open>guilds\<close> and \<open>channels\<close> are the sizes of the
  client's caches; \<open>applied\<close> lists, oldest first, the objects handed to
  \<^verbatim>\<open>client.user.setActivity\<close>. The client is logged in (\<^verbatim>\<open>client.user\<close> is set).
  The templates of a pool are held by value: the class reads them and never assigns
  through the pool.
\<close>

record 'p world =
  heap :: "nat \<Rightarrow> ActivityOptions"
  next_ref :: nat
  parser :: 'p
  users :: nat
  guilds :: nat
  channels :: nat
  applied :: "nat list"

section \<open>Selection\<close>

text \<open>
  JavaScript numbers are IEEE 754 doubles. A finite double is a rational number, and
  the product of two doubles is the exact product rounded to the nearest double, ties
  to the even significand. \<open>expo x\<close> is the exponent of the binade of a positive
  \<open>x\<close>, not below \<open>-1022\<close> (where the subnormal numbers begin); the doubles of that
  binade are the multiples of \<open>2 powi (expo x - 52)\<close>; \<open>find_exp\<close> looks for the
  exponent from 1023 downwards. Overflow to \<^verbatim>\<open>Infinity\<close> (from
  \<open>2^1024\<close> on) and \<^verbatim>\<open>NaN\<close> are not represented: the products formed here are below
  \<open>2^32\<close>.
\<close>

fun find_exp :: "nat \<Rightarrow> int \<Rightarrow> rat \<Rightarrow> int" where
  "find_exp 0 e x = e"
| "find_exp (Suc fuel) e x = (if 2 powi e \<le> x then e else find_exp fuel (e - 1) x)"

definition expo :: "rat \<Rightarrow> int" where
  "expo x = find_exp 2045 1023 x"

text \<open>The nearest integer, a tie going to the even one.\<close>

definition round_even :: "rat \<Rightarrow> int" where
  "round_even y =
    (let f = \<lfloor>y\<rfloor>; d = y - of_int f
     in if d < 1 / 2 then f else if 1 / 2 < d then f + 1 else if even f then f else f + 1)"

definition round_double :: "rat \<Rightarrow> rat" where
  "round_double x =
    (if x = 0 then 0
     else sgn x * (let u = 2 powi (expo \<bar>x\<bar> - 52) in of_int (round_even (\<bar>x\<bar> / u)) * u))"

text \<open>The rationals that are doubles, and the operator \<^verbatim>\<open>*\<close> on doubles.\<close>

definition is_double :: "rat \<Rightarrow> bool" where
  "is_double x \<longleftrightarrow> round_double x = x"

definition js_times :: "rat \<Rightarrow> rat \<Rightarrow> rat" where
  "js_times a b = round_double (a * b)"

text \<open>
  \<^verbatim>\<open>~~x\<close>: each \<^verbatim>\<open>~\<close> converts its operand to a 32-bit signed integer (truncating
  towards zero, then wrapping modulo \<open>2^32\<close>) and complements it.
\<close>

definition trunc :: "rat \<Rightarrow> int" where
  "trunc x = (if x < 0 then \<lceil>x\<rceil> else \<lfloor>x\<rfloor>)"

definition double_tilde :: "rat \<Rightarrow> int" where
  "double_tilde x = sint (NOT (NOT (word_of_int (trunc x) :: 32 word)))"

text \<open>Reading \<^verbatim>\<open>xs[i]\<close>: outside the array the result is \<^verbatim>\<open>undefined\<close>.\<close>

definition js_index :: "'a list \<Rightarrow> int \<Rightarrow> 'a option" where
  "js_index xs i = (if 0 \<le> i \<and> i < int (length xs) then Some (xs ! nat i) else None)"

definition alloc :: "ActivityOptions \<Rightarrow> 'p world \<Rightarrow> nat \<times> 'p world" where
  "alloc obj w =
    (next_ref w, w\<lparr>heap := (heap w)(next_ref w := obj), next_ref := Suc (next_ref w)\<rparr>)"

text \<open>
  \<^verbatim>\<open>_chooseActivity\<close>. \<open>r\<close> is the double that \<^verbatim>\<open>Math.random()\<close> returns; the length
  of a JavaScript array is below \<open>2^32\<close> and is a double as it is. Reading \<^verbatim>\<open>length\<close>
  of an undefined pool and reading \<^verbatim>\<open>type\<close> of an undefined element both throw a
  TypeError. The object literal with the spread is a new object, allocated at the
  first free address.
\<close>

definition details_of :: "('p, 'r) host \<Rightarrow> 'p \<Rightarrow> ActivityOptions \<Rightarrow> ActivityOptions" where
  "details_of h p info =
    info\<lparr>type := (if truthy_kind (type info) then type info else Some (KStr ''PLAYING'')),
         name := Some (let n = parse h p (name info) in if n \<noteq> [] then n else ''a game'')\<rparr>"

definition chooseActivity ::
  "('p, 'r) host \<Rightarrow> StatusUpdater \<Rightarrow> 'p world \<Rightarrow> rat \<Rightarrow> js_error + (nat \<times> 'p world)" where
  "chooseActivity h s w r =
    (case statuses s of
       None \<Rightarrow> Inl (TypeError ''Cannot read property length of undefined'')
     | Some pool \<Rightarrow>
         (case js_index pool (double_tilde (js_times r (of_nat (length pool)))) of
            None \<Rightarrow> Inl (TypeError ''Cannot read property type of undefined'')
          | Some info \<Rightarrow> Inr (alloc (details_of h (parser w) info) w)))"

section \<open>updateStatus\<close>

definition updateParserData :: "('p, 'r) host \<Rightarrow> 'p world \<Rightarrow> 'p world" where
  "updateParserData h w = w\<lparr>parser := updateData h (users w) (guilds w) (channels w) (parser w)\<rparr>"

text \<open>
  \<^verbatim>\<open>updateStatus(activity, shardId)\<close>. The explicit activity is a reference to the
  caller's object, or \<open>None\<close> when omitted; the shard id is a number, or \<open>None\<close> when
  omitted. The result is a synchronous throw (\<open>Inl\<close>) or the outcome of the promise
  that \<^verbatim>\<open>setActivity\<close> returned, together with the world after the call.
\<close>

definition attach_shard :: "int option \<Rightarrow> nat \<Rightarrow> 'p world \<Rightarrow> 'p world" where
  "attach_shard shardId a w =
    (case shardId of
       Some n \<Rightarrow>
         if n \<noteq> 0 then w\<lparr>heap := (heap w)(a := (heap w a)\<lparr>shardID := Some (ShardNum n)\<rparr>)\<rparr>
         else w
     | None \<Rightarrow> w)"

definition updateStatus ::
  "('p, 'r) host \<Rightarrow> StatusUpdater \<Rightarrow> 'p world \<Rightarrow> nat option \<Rightarrow> int option \<Rightarrow> rat
    \<Rightarrow> (js_error + (js_error + 'r)) \<times> 'p world" where
  "updateStatus h s w activity shardId r =
    (let w1 = updateParserData h w in
     case (case activity of Some a \<Rightarrow> Inr (a, w1) | None \<Rightarrow> chooseActivity h s w1 r) of
       Inl e \<Rightarrow> (Inl e, w1)
     | Inr (a, w2) \<Rightarrow>
         (let w3 = attach_shard shardId a w2
          in (Inr (setActivity h (heap w3 a)), w3\<lparr>applied := applied w3 @ [a]\<rparr>)))"

section \<open>Lifetime of an updater\<close>

text \<open>
  What can happen to an updater after construction: the promise of \<^verbatim>\<open>_init\<close> settles,
  the accessor is read, or \<^verbatim>\<open>updateStatus\<close> is called. Only the first assigns fields
  of the updater; \<^verbatim>\<open>_init\<close> is private and called from the constructor alone, so no
  event starts a second fetch.
\<close>

datatype event = Settle fetch_outcome | ReadStatuses | UpdateStatus

fun step :: "event \<Rightarrow> StatusUpdater \<Rightarrow> StatusUpdater" where
  "step (Settle out) s = init out s"
| "step ReadStatuses s = s"
| "step UpdateStatus s = s"

fun run :: "StatusUpdater \<Rightarrow> event list \<Rightarrow> StatusUpdater" where
  "run s [] = s"
| "run s (e # es) = run (step e s) es"

text \<open>The states an updater goes through, the first being the one it starts in.\<close>

fun states :: "StatusUpdater \<Rightarrow> event list \<Rightarrow> StatusUpdater list" where
  "states s [] = [s]"
| "states s (e # es) = s # states (step e s) es"

text \<open>How often a sequence of flags goes from false to true, and from true to false.\<close>

fun rises :: "bool list \<Rightarrow> nat" where
  "rises (a # b # bs) = (if \<not> a \<and> b then 1 else 0) + rises (b # bs)"
| "rises _ = 0"

fun falls :: "bool list \<Rightarrow> nat" where
  "falls (a # b # bs) = (if a \<and> \<not> b then 1 else 0) + falls (b # bs)"
| "falls _ = 0"

fun is_settle :: "event \<Rightarrow> bool" where
  "is_settle (Settle out) = True"
| "is_settle _ = False"

section \<open>WebhookLogger\<close>

text \<open>
  \<^verbatim>\<open>WebhookLogger._write\<close> builds the message it sends to the webhook. The base class
  \<^verbatim>\<open>Logger\<close> (with \<^verbatim>\<open>_prepareText\<close> and \<^verbatim>\<open>_processTag\<close>), the table \<^verbatim>\<open>colors\<close> and
  the enumeration \<^verbatim>\<open>LogLevel\<close> are not among the sources: the prepared text, the
  process tag, the colour of the level and the time stamp are parameters, and a level
  is its number. The console output of \<^verbatim>\<open>super._write\<close> is not part of the message.
  \<open>None\<close> is the early return that sends nothing.
\<close>

record MessageEmbed =
  timestamp :: "nat option"
  color :: "nat option"
  footer :: "string option"
  description :: "string option"
  title :: "string option"

record MessageAttachment =
  attachment :: string
  file_name :: string

record WebhookMessageOptions =
  avatarURL :: string
  embeds :: "MessageEmbed list"
  username :: string
  files :: "MessageAttachment list option"

record logger_env =
  webhookLevel :: nat
  processTag :: string
  now :: nat
  colors :: "nat \<Rightarrow> nat"

definition new_embed :: MessageEmbed where
  "new_embed = \<lparr>timestamp = None, color = None, footer = None, description = None, title = None\<rparr>"

definition WebhookLogger_write ::
  "logger_env \<Rightarrow> nat \<Rightarrow> string \<Rightarrow> string \<Rightarrow> WebhookMessageOptions option" where
  "WebhookLogger_write env level tag cleaned =
    (if webhookLevel env < level then None
     else
       (let embed = new_embed\<lparr>timestamp := Some (now env), color := Some (colors env level),
                               footer := Some (processTag env)\<rparr>;
            (embed1, files1) =
              (if length cleaned \<le> 2048 then (embed\<lparr>description := Some cleaned\<rparr>, None)
               else (embed\<lparr>description := Some ''Data is too long, falling back to file.''\<rparr>,
                     Some [\<lparr>attachment = cleaned, file_name = ''file.txt''\<rparr>]));
            embed2 = (if tag \<noteq> [] then embed1\<lparr>title := Some tag\<rparr> else embed1)
        in Some \<lparr>avatarURL = ''https://cdn.discordapp.com/avatars/237993001828352001/a_04c3221e95f15ebcec7fbb96c6ec1146.gif?size=512'',
                 embeds = [embed2], username = ''Emoji Stealer Status'', files = files1\<rparr>))"

text \<open>The two ways a text is delivered.\<close>

datatype delivery = Inline | AsFile

definition delivery_of :: "WebhookMessageOptions \<Rightarrow> delivery" where
  "delivery_of m = (case files m of None \<Rightarrow> Inline | Some fs \<Rightarrow> AsFile)"

section \<open>Concrete collaborators\<close>

text \<open>
  Modelled from the spec: \<^verbatim>\<open>isUrl\<close> of \<^verbatim>\<open>src/util/Validators\<close> is missing from the sources.
  The spec asks for a syntactically valid URL and gives no grammar; this validator
  accepts an \<^verbatim>\<open>http\<close> or \<^verbatim>\<open>https\<close> scheme followed by a non-empty rest without
  blanks. The theorems about the constructor hold for every validator; this one only
  instantiates them.
\<close>

definition isUrl :: "string \<Rightarrow> bool" where
  "isUrl s \<longleftrightarrow>
    ((take 7 s = ''http://'' \<and> 7 < length s) \<or> (take 8 s = ''https://'' \<and> 8 < length s))
    \<and> CHR '' '' \<notin> set s"

text \<open>
  Modelled from the spec: \<^verbatim>\<open>VariableParser\<close> of \<^verbatim>\<open>src/util/VariableParser\<close> is missing
  from the sources. Its data maps a token name to a value; \<^verbatim>\<open>updateData\<close> merges new
  pairs over the old ones; \<^verbatim>\<open>parse\<close> replaces every \<^verbatim>\<open>{identifier}\<close> with a known
  value by that value and leaves every other placeholder as it is. The spec does not
  say what \<^verbatim>\<open>parse\<close> does with an unset name; here it gives the empty string.
\<close>

type_synonym VariableData = "(string \<times> string) list"

fun digits :: "nat \<Rightarrow> nat \<Rightarrow> string" where
  "digits 0 n = []"
| "digits (Suc f) n =
    (if n < 10 then [char_of (48 + n)] else digits f (n div 10) @ [char_of (48 + n mod 10)])"

definition string_of_nat :: "nat \<Rightarrow> string" where
  "string_of_nat n = digits (Suc n) n"

definition VariableParser_updateData :: "nat \<Rightarrow> nat \<Rightarrow> nat \<Rightarrow> VariableData \<Rightarrow> VariableData" where
  "VariableParser_updateData u g c d =
    [(''users'', string_of_nat u), (''guilds'', string_of_nat g), (''channels'', string_of_nat c)] @ d"

fun substitute :: "VariableData \<Rightarrow> string option \<Rightarrow> string \<Rightarrow> string" where
  "substitute d None [] = []"
| "substitute d (Some key) [] = CHR ''{'' # rev key"
| "substitute d None (c # cs) =
    (if c = CHR ''{'' then substitute d (Some []) cs else c # substitute d None cs)"
| "substitute d (Some key) (c # cs) =
    (if c = CHR ''}'' then
       (case map_of d (rev key) of
          Some v \<Rightarrow> v
        | None \<Rightarrow> CHR ''{'' # rev key @ ''}'') @ substitute d None cs
     else if c = CHR ''{'' then (CHR ''{'' # rev key) @ substitute d (Some []) cs
     else substitute d (Some (c # key)) cs)"

definition VariableParser_parse :: "VariableData \<Rightarrow> string option \<Rightarrow> string" where
  "VariableParser_parse d n = (case n of None \<Rightarrow> [] | Some t \<Rightarrow> substitute d None t)"

text \<open>
  A host for evaluating the model: the parser above, and a presence-setting call that
  resolves to the activity it was given and rejects an activity without a name.
\<close>

definition sample_setActivity :: "ActivityOptions \<Rightarrow> js_error + ActivityOptions" where
  "sample_setActivity a =
    (case name a of None \<Rightarrow> Inl (Error ''Missing name'') | Some n \<Rightarrow> Inr a)"

definition sample_host :: "(VariableData, ActivityOptions) host" where
  "sample_host =
    \<lparr>updateData = VariableParser_updateData, parse = VariableParser_parse,
     setActivity = sample_setActivity\<rparr>"

definition empty_object :: ActivityOptions where
  "empty_object = \<lparr>type = None, name = None, url = None, shardID = None\<rparr>"

text \<open>
  A world with one object allocated, at address 0: the activity
  \<^verbatim>\<open>{ type: 'WATCHING', name: 'the logs' }\<close> a caller passes to \<^verbatim>\<open>updateStatus\<close>.
\<close>

definition sample_world :: "VariableData world" where
  "sample_world =
    \<lparr>heap = (\<lambda>a. empty_object)(0 := template ''WATCHING'' ''the logs''), next_ref = 1,
     parser = [(''prefix'', ''!'')], users = 42, guilds = 3, channels = 7, applied = []\<rparr>"

definition sample_logger :: logger_env where
  "sample_logger = \<lparr>webhookLevel = 5, processTag = ''main'', now = 0, colors = (\<lambda>l. l)\<rparr>"

text \<open>
  An updater that is READY with an inline pool of two templates, the first with no
  kind and an empty name.
\<close>

definition sample_updater :: StatusUpdater where
  "sample_updater =
    init (FetchOk [])
      (blank\<lparr>private_statuses :=
          Some [\<lparr>type = None, name = Some [], url = None, shardID = None\<rparr>,
                template ''PLAYING'' ''with {users} users''],
        pending := True\<rparr>)"

section \<open>Rounding to a double\<close>

lemma find_exp_spec:
  "e - int fuel \<le> find_exp fuel e x \<and> find_exp fuel e x \<le> e
   \<and> (2 powi (find_exp fuel e x) \<le> x \<or> find_exp fuel e x = e - int fuel)
   \<and> (find_exp fuel e x < e \<longrightarrow> x < 2 powi (find_exp fuel e x + 1))"
proof (induction fuel arbitrary: e)
  case 0
  show ?case by simp
next
  case (Suc fuel)
  show ?case
  proof (cases "2 powi e \<le> x")
    case True
    then show ?thesis by simp
  next
    case False
    have eq: "find_exp (Suc fuel) e x = find_exp fuel (e - 1) x" using False by simp
    from Suc.IH [of "e - 1"]
    have a: "e - 1 - int fuel \<le> find_exp fuel (e - 1) x"
      and b: "find_exp fuel (e - 1) x \<le> e - 1"
      and c: "2 powi (find_exp fuel (e - 1) x) \<le> x \<or> find_exp fuel (e - 1) x = e - 1 - int fuel"
      and d: "find_exp fuel (e - 1) x < e - 1 \<longrightarrow> x < 2 powi (find_exp fuel (e - 1) x + 1)"
      by simp_all
    have top: "x < 2 powi (find_exp fuel (e - 1) x + 1)"
    proof (cases "find_exp fuel (e - 1) x < e - 1")
      case True
      with d show ?thesis by simp
    next
      case False
      with b have "find_exp fuel (e - 1) x = e - 1" by simp
      then show ?thesis using \<open>\<not> 2 powi e \<le> x\<close> by simp
    qed
    show ?thesis
      unfolding eq using a b c top by auto
  qed
qed

lemma expo_range: "- 1022 \<le> expo x" "expo x \<le> 1023"
  using find_exp_spec [of 1023 2045 x] by (simp_all add: expo_def)

lemma expo_lower: "2 powi (expo x) \<le> x \<or> expo x = - 1022"
  using find_exp_spec [of 1023 2045 x] by (simp add: expo_def)

lemma expo_upper: "expo x < 1023 \<Longrightarrow> x < 2 powi (expo x + 1)"
  using find_exp_spec [of 1023 2045 x] by (simp add: expo_def)

lemma expo_eq:
  assumes "2 powi e \<le> x" and "x < 2 powi (e + 1)" and "- 1022 \<le> e" and "e \<le> 1023"
  shows "expo x = e"
proof (rule antisym)
  show "expo x \<le> e"
  proof (rule ccontr)
    assume "\<not> expo x \<le> e"
    then have "e + 1 \<le> expo x" by simp
    then have "(2::rat) powi (e + 1) \<le> 2 powi (expo x)" by (intro power_int_increasing) simp_all
    moreover have "expo x \<noteq> - 1022" using \<open>e + 1 \<le> expo x\<close> assms(3) by simp
    ultimately have "2 powi (e + 1) \<le> x" using expo_lower [of x] by auto
    with assms(2) show False by simp
  qed
  show "e \<le> expo x"
  proof (rule ccontr)
    assume "\<not> e \<le> expo x"
    then have lt: "expo x + 1 \<le> e" by simp
    then have "expo x < 1023" using assms(4) by simp
    then have "x < 2 powi (expo x + 1)" by (rule expo_upper)
    also have "\<dots> \<le> 2 powi e" using lt by (intro power_int_increasing) simp_all
    finally show False using assms(1) by simp
  qed
qed

lemma round_even_nonneg: "0 \<le> y \<Longrightarrow> 0 \<le> round_even y"
  by (auto simp: round_even_def Let_def)

lemma round_even_below:
  assumes "y < of_int K - 1 / 2"
  shows "round_even y < K"
proof -
  have "y < of_int K" using assms by simp
  then have fl: "\<lfloor>y\<rfloor> < K" by (simp only: floor_less_iff)
  show ?thesis
  proof (cases "\<lfloor>y\<rfloor> + 1 < K")
    case True
    then show ?thesis by (auto simp: round_even_def Let_def)
  next
    case False
    with fl have "\<lfloor>y\<rfloor> = K - 1" by simp
    then have "y - of_int \<lfloor>y\<rfloor> < 1 / 2" using assms by simp
    then show ?thesis using fl by (simp add: round_even_def Let_def)
  qed
qed

lemma round_double_nonneg: "0 \<le> x \<Longrightarrow> 0 \<le> round_double x"
proof (cases "x = 0")
  case True
  then show ?thesis by (simp add: round_double_def)
next
  case False
  assume "0 \<le> x"
  with False have pos: "0 < x" by simp
  have "0 \<le> round_even (x / 2 powi (expo x - 52))"
    using pos by (intro round_even_nonneg) simp
  then show ?thesis
    using pos by (simp add: round_double_def Let_def)
qed

lemma round_double_below:
  fixes L :: nat
  assumes "0 < x" and "x \<le> of_nat L * (1 - 1 / 2 ^ 53)" and "L \<le> 2 ^ 53"
  shows "round_double x < of_nat L"
proof -
  define e where "e = expo x"
  define u :: rat where "u = 2 powi (e - 52)"
  have upos: "0 < u" by (simp add: u_def)
  have Lpos: "0 < L"
  proof (rule ccontr)
    assume "\<not> 0 < L"
    with assms(1,2) show False by simp
  qed
  have xL: "x < of_nat L"
  proof -
    have "of_nat L * (1 - 1 / 2 ^ 53) < (of_nat L :: rat) * 1"
      using Lpos by (intro mult_strict_left_mono) simp_all
    with assms(2) show ?thesis by simp
  qed
  have eL: "2 powi e < (of_nat L :: rat)"
  proof (cases "2 powi e \<le> x")
    case True
    with xL show ?thesis by simp
  next
    case False
    then have "e = - 1022" using expo_lower [of x] by (simp add: e_def)
    then have "(2::rat) powi e < 1" by simp
    also have "(1::rat) \<le> of_nat L" using Lpos by simp
    finally show ?thesis .
  qed
  have e52: "e \<le> 52"
  proof (rule ccontr)
    assume "\<not> e \<le> 52"
    then have "53 \<le> e" by simp
    then have "(2::rat) powi 53 \<le> 2 powi e" by (intro power_int_increasing) simp_all
    moreover have "(of_nat L :: rat) \<le> of_nat (2 ^ 53)" using assms(3) by (simp only: of_nat_le_iff)
    ultimately show False using eL by simp
  qed
  define K :: int where "K = int L * 2 ^ nat (52 - e)"
  have inv: "u * 2 ^ nat (52 - e) = 1"
  proof -
    have "(2::rat) ^ nat (52 - e) = 2 powi (52 - e)" using e52 by (simp add: power_int_def)
    then have "u * 2 ^ nat (52 - e) = 2 powi (e - 52) * 2 powi (52 - e)" by (simp add: u_def)
    also have "\<dots> = 2 powi ((e - 52) + (52 - e))" by (subst power_int_add) simp_all
    finally show ?thesis by simp
  qed
  have Ku: "of_int K * u = of_nat L"
  proof -
    have "of_int K * u = of_nat L * (u * 2 ^ nat (52 - e))" by (simp add: K_def)
    then show ?thesis by (simp add: inv)
  qed
  have half: "u / 2 = 2 powi e / 2 ^ 53"
  proof -
    have "(2::rat) powi e = 2 powi ((e - 52) + 52)" by simp
    also have "\<dots> = 2 powi (e - 52) * 2 powi 52" by (subst power_int_add) simp_all
    finally have "(2::rat) powi e = u * 2 ^ 52" by (simp add: u_def)
    then show ?thesis by simp
  qed
  have gap: "u / 2 < of_nat L / 2 ^ 53"
    unfolding half using eL by (simp add: divide_strict_right_mono)
  have "x < of_nat L - u / 2"
  proof -
    have "x \<le> of_nat L - of_nat L / 2 ^ 53" using assms(2) by (simp add: algebra_simps)
    with gap show ?thesis by simp
  qed
  moreover have "(of_int K - 1 / 2) * u = of_int K * u - u / 2" by (simp add: algebra_simps)
  ultimately have "x < (of_int K - 1 / 2) * u" by (simp only: Ku)
  then have "x / u < of_int K - 1 / 2" using upos by (simp add: pos_divide_less_eq)
  then have "round_even (x / u) < K" by (rule round_even_below)
  then have "round_even (x / u) \<le> K - 1" by simp
  then have "(of_int (round_even (x / u)) :: rat) \<le> of_int (K - 1)" by (simp only: of_int_le_iff)
  then have "of_int (round_even (x / u)) * u \<le> of_int (K - 1) * u"
    using upos by (intro mult_right_mono) simp_all
  also have "\<dots> = of_int K * u - u" by (simp add: algebra_simps)
  also have "\<dots> = of_nat L - u" by (simp only: Ku)
  also have "\<dots> < of_nat L" using upos by simp
  finally have "of_int (round_even (x / u)) * u < of_nat L" .
  then show ?thesis
    using assms(1) by (simp add: round_double_def Let_def u_def e_def)
qed

lemma double_below_one:
  assumes "is_double r" and "0 \<le> r" and "r < 1"
  shows "r \<le> 1 - 1 / 2 ^ 53"
proof (cases "r = 0")
  case True
  then show ?thesis by simp
next
  case False
  with assms(2) have pos: "0 < r" by simp
  define e where "e = expo r"
  define n where "n = round_even (r / 2 powi (e - 52))"
  have r: "r = of_int n * 2 powi (e - 52)"
    using assms(1) pos by (simp add: is_double_def round_double_def Let_def n_def e_def)
  have neg: "e < 0"
  proof (cases "2 powi e \<le> r")
    case True
    with assms(3) have small: "(2::rat) powi e < 1" by simp
    show ?thesis
    proof (rule ccontr)
      assume "\<not> e < 0"
      then have "(1::rat) \<le> 2 powi e" by (intro one_le_power_int) simp_all
      with small show False by simp
    qed
  next
    case False
    then show ?thesis using expo_lower [of r] by (simp add: e_def)
  qed
  show ?thesis
  proof (cases "e = - 1")
    case True
    have "(2::rat) powi (- 53) = 1 / 2 ^ 53" by (simp add: power_int_def field_simps)
    then have rn: "r = of_int n / 2 ^ 53" using r True by simp
    with assms(3) have "(of_int n :: rat) < 2 ^ 53" by (simp add: field_simps)
    then have "(of_int n :: rat) < of_int (2 ^ 53)" by simp
    then have "n < 2 ^ 53" by (simp only: of_int_less_iff)
    then have "n \<le> 2 ^ 53 - 1" by simp
    then have "(of_int n :: rat) \<le> of_int (2 ^ 53 - 1)" by (simp only: of_int_le_iff)
    then show ?thesis unfolding rn by (simp add: field_simps)
  next
    case False
    with neg have le: "e + 1 \<le> - 1" by simp
    have "e < 1023" using neg by simp
    then have "r < 2 powi (e + 1)" unfolding e_def by (rule expo_upper)
    also have "\<dots> \<le> 2 powi (- 1)" using le by (intro power_int_increasing) simp_all
    also have "\<dots> = 1 / 2" by (simp add: power_int_def field_simps)
    finally show ?thesis by simp
  qed
qed

lemma js_times_length_bounds:
  fixes L :: nat
  assumes "is_double r" and "0 \<le> r" and "r < 1" and "0 < L" and "L \<le> 2 ^ 53"
  shows "0 \<le> js_times r (of_nat L)" and "js_times r (of_nat L) < of_nat L"
proof -
  have nn: "0 \<le> r * of_nat L" using assms(2) by simp
  then show "0 \<le> js_times r (of_nat L)"
    unfolding js_times_def by (rule round_double_nonneg)
  show "js_times r (of_nat L) < of_nat L"
  proof (cases "r * of_nat L = 0")
    case True
    then show ?thesis using assms(4) by (simp add: js_times_def round_double_def)
  next
    case False
    have pos: "0 < r * of_nat L"
      by (rule order.not_eq_order_implies_strict [OF False [THEN not_sym] nn])
    have "r \<le> 1 - 1 / 2 ^ 53" using assms(1,2,3) by (rule double_below_one)
    then have "r * of_nat L \<le> (1 - 1 / 2 ^ 53) * of_nat L"
      by (intro mult_right_mono) simp_all
    then have "r * of_nat L \<le> of_nat L * (1 - 1 / 2 ^ 53)" by (simp add: mult.commute)
    from round_double_below [OF pos this assms(5)] show ?thesis by (simp add: js_times_def)
  qed
qed




lemma round_double_eval:
  assumes "0 < x" and "2 powi e \<le> x" and "x < 2 powi (e + 1)" and "- 1022 \<le> e" and "e \<le> 1023"
  shows "round_double x = of_int (round_even (x / 2 powi (e - 52))) * 2 powi (e - 52)"
proof -
  have "expo x = e" using assms(2-5) by (rule expo_eq)
  then show ?thesis using assms(1) by (simp add: round_double_def Let_def)
qed

lemma is_double_0: "is_double 0"
  by (simp add: is_double_def round_double_def)

lemma js_times_0: "js_times 0 b = 0"
  by (simp add: js_times_def round_double_def)

lemma round_double_1: "round_double 1 = 1"
proof -
  have "round_double 1 = of_int (round_even (1 / 2 powi (0 - 52))) * 2 powi (0 - 52)"
    by (rule round_double_eval) simp_all
  also have "\<dots> = 1" by code_simp
  finally show ?thesis .
qed

lemma is_double_half: "is_double (1 / 2)"
proof -
  have "round_double (1 / 2) = of_int (round_even (1 / 2 / 2 powi (- 1 - 52))) * 2 powi (- 1 - 52)"
    by (rule round_double_eval) simp_all
  also have "\<dots> = 1 / 2" by code_simp
  finally show ?thesis by (simp only: is_double_def)
qed

lemma is_double_three_quarters: "is_double (3 / 4)"
proof -
  have "round_double (3 / 4) = of_int (round_even (3 / 4 / 2 powi (- 1 - 52))) * 2 powi (- 1 - 52)"
    by (rule round_double_eval) simp_all
  also have "\<dots> = 3 / 4" by code_simp
  finally show ?thesis by (simp only: is_double_def)
qed

text \<open>
  The double \<^verbatim>\<open>0.5714285714285714\<close> is \<open>2573485501354569 / 2^52\<close>. Seven times it is
  \<open>4 - 2^-52\<close> exactly, half way between the doubles \<open>4 - 2^-51\<close> and \<open>4\<close>, and
  rounds to \<open>4\<close>.
\<close>

lemma is_double_sample: "is_double (2573485501354569 / 4503599627370496)"
proof -
  have "round_double (2573485501354569 / 4503599627370496)
      = of_int (round_even (2573485501354569 / 4503599627370496 / 2 powi (- 1 - 52)))
          * 2 powi (- 1 - 52)"
    by (rule round_double_eval) simp_all
  also have "\<dots> = 2573485501354569 / 4503599627370496" by code_simp
  finally show ?thesis by (simp only: is_double_def)
qed

lemma js_times_sample: "js_times (2573485501354569 / 4503599627370496) 7 = 4"
proof -
  have "round_double (18014398509481983 / 4503599627370496)
      = of_int (round_even (18014398509481983 / 4503599627370496 / 2 powi (1 - 52)))
          * 2 powi (1 - 52)"
    by (rule round_double_eval) simp_all
  also have "\<dots> = 4" by code_simp
  finally show ?thesis by (simp add: js_times_def)
qed

lemma js_times_wide: "js_times (3 / 4) 4294967295 = 12884901885 / 4"
proof -
  have "round_double (12884901885 / 4)
      = of_int (round_even (12884901885 / 4 / 2 powi (31 - 52))) * 2 powi (31 - 52)"
    by (rule round_double_eval) simp_all
  also have "\<dots> = 12884901885 / 4" by code_simp
  finally show ?thesis by (simp add: js_times_def)
qed

section \<open>The index computed by the selection\<close>

lemma double_tilde_floor:
  assumes "0 \<le> x" and "x < 2 ^ 31"
  shows "double_tilde x = \<lfloor>x\<rfloor>"
proof -
  have lo: "- (2 ^ 31) \<le> \<lfloor>x\<rfloor>"
  proof -
    have "0 \<le> \<lfloor>x\<rfloor>" using assms(1) by simp
    moreover have "- (2 ^ 31) \<le> (0::int)" by simp
    ultimately show ?thesis by (rule order_trans [rotated])
  qed
  have hi: "\<lfloor>x\<rfloor> < 2 ^ 31"
    using assms(2) by (simp add: floor_less_iff)
  have "double_tilde x = signed_take_bit 31 \<lfloor>x\<rfloor>"
    using assms(1) by (simp add: double_tilde_def trunc_def sint_sbintrunc')
  also have "\<dots> = \<lfloor>x\<rfloor>"
    using lo hi by (rule signed_take_bit_int_eq_self)
  finally show ?thesis .
qed

lemma double_tilde_wraps: "double_tilde (12884901885 / 4) = - 1073741825"
  by code_simp

lemma index_of_product:
  fixes L :: nat
  assumes "is_double r" and "0 \<le> r" and "r < 1" and "0 < L" and "L \<le> 2 ^ 31"
  shows "double_tilde (js_times r (of_nat L)) = \<lfloor>js_times r (of_nat L)\<rfloor>"
    and "0 \<le> \<lfloor>js_times r (of_nat L)\<rfloor>" and "\<lfloor>js_times r (of_nat L)\<rfloor> < int L"
proof -
  have "(2::nat) ^ 31 \<le> 2 ^ 53" by simp
  with assms(5) have L53: "L \<le> 2 ^ 53" by (rule order_trans)
  have nn: "0 \<le> js_times r (of_nat L)" and below: "js_times r (of_nat L) < of_nat L"
    using js_times_length_bounds [OF assms(1-4) L53] by simp_all
  have "(of_nat L :: rat) \<le> of_nat (2 ^ 31)" using assms(5) by (simp only: of_nat_le_iff)
  then have "(of_nat L :: rat) \<le> 2 ^ 31" by simp
  with below have "js_times r (of_nat L) < 2 ^ 31" by (rule less_le_trans)
  with nn show "double_tilde (js_times r (of_nat L)) = \<lfloor>js_times r (of_nat L)\<rfloor>"
    by (rule double_tilde_floor)
  show "0 \<le> \<lfloor>js_times r (of_nat L)\<rfloor>" using nn by simp
  have "js_times r (of_nat L) < of_int (int L)" using below by simp
  then show "\<lfloor>js_times r (of_nat L)\<rfloor> < int L" by (simp only: floor_less_iff)
qed

text \<open>
  C9, as amended: for every non-empty pool of length \<open>L \<le> 2^31\<close> and every double
  \<open>r\<close> with \<open>0 \<le> r < 1\<close> that the random source returns, the index \<^verbatim>\<open>~~(r * L)\<close>
  computed in \<^verbatim>\<open>_chooseActivity\<close>, the product being the rounded product of doubles,
  satisfies \<open>0 \<le> index < L\<close>, and the element read at that index is a defined element
  of the pool.
\<close>

theorem choose_index_in_range:
  fixes pool :: "'a list"
  assumes "pool \<noteq> []" and "length pool \<le> 2 ^ 31" and "is_double r" and "0 \<le> r" and "r < 1"
  shows "0 \<le> double_tilde (js_times r (of_nat (length pool)))
       \<and> double_tilde (js_times r (of_nat (length pool))) < int (length pool)
       \<and> double_tilde (js_times r (of_nat (length pool))) = \<lfloor>js_times r (of_nat (length pool))\<rfloor>
       \<and> js_index pool (double_tilde (js_times r (of_nat (length pool))))
           = Some (pool ! nat (double_tilde (js_times r (of_nat (length pool)))))"
proof -
  have pos: "0 < length pool" using assms(1) by simp
  note idx = index_of_product [OF assms(3,4,5) pos assms(2)]
  show ?thesis
    unfolding idx(1) js_index_def using idx(2,3) by simp
qed

text \<open>
  C9, witness: the default pool of seven templates and the double
  \<^verbatim>\<open>0.5714285714285714\<close>. The rounded product is \<open>4\<close>, the index is 4, and the
  element read is the fifth template. (The exact product is below 4.)
\<close>

theorem choose_index_in_range_witness:
  "defaultStatuses \<noteq> [] \<and> length defaultStatuses \<le> 2 ^ 31
   \<and> is_double (2573485501354569 / 4503599627370496)
   \<and> (0::rat) \<le> 2573485501354569 / 4503599627370496
   \<and> (2573485501354569 / 4503599627370496 :: rat) < 1
   \<and> (2573485501354569 / 4503599627370496 :: rat) * 7 < 4
   \<and> double_tilde (js_times (2573485501354569 / 4503599627370496)
        (of_nat (length defaultStatuses))) = 4
   \<and> js_index defaultStatuses
        (double_tilde (js_times (2573485501354569 / 4503599627370496)
           (of_nat (length defaultStatuses))))
       = Some (template ''WATCHING'' ''{website}'')"
proof -
  have a: "defaultStatuses \<noteq> []" and b: "length defaultStatuses \<le> 2 ^ 31"
    by (simp_all add: defaultStatuses_def)
  have c: "(0::rat) \<le> 2573485501354569 / 4503599627370496"
    and d: "(2573485501354569 / 4503599627370496 :: rat) < 1"
    and x: "(2573485501354569 / 4503599627370496 :: rat) * 7 < 4" by simp_all
  have len: "length defaultStatuses = 7" by (simp add: defaultStatuses_def)
  have fifth: "defaultStatuses ! 4 = template ''WATCHING'' ''{website}''"
    by (simp add: defaultStatuses_def)
  have prod: "js_times (2573485501354569 / 4503599627370496) (of_nat (length defaultStatuses)) = 4"
    by (simp add: len js_times_sample)
  note range = choose_index_in_range [OF a b is_double_sample c d]
  from range have "double_tilde (js_times (2573485501354569 / 4503599627370496)
        (of_nat (length defaultStatuses)))
      = \<lfloor>js_times (2573485501354569 / 4503599627370496) (of_nat (length defaultStatuses))\<rfloor>"
    by (elim conjE)
  then have e: "double_tilde (js_times (2573485501354569 / 4503599627370496)
        (of_nat (length defaultStatuses))) = 4"
    by (simp add: prod)
  from range have "js_index defaultStatuses
        (double_tilde (js_times (2573485501354569 / 4503599627370496)
           (of_nat (length defaultStatuses))))
      = Some (defaultStatuses ! nat (double_tilde (js_times (2573485501354569 / 4503599627370496)
           (of_nat (length defaultStatuses)))))"
    by (elim conjE)
  then have f: "js_index defaultStatuses
        (double_tilde (js_times (2573485501354569 / 4503599627370496)
           (of_nat (length defaultStatuses))))
      = Some (template ''WATCHING'' ''{website}'')"
    by (simp add: e fifth)
  from a b is_double_sample c d x e f show ?thesis by (intro conjI)
qed

text \<open>
  C9, counterexample to the claim as stated (every non-empty pool): an array of the
  greatest length JavaScript allows, \<open>2^32 - 1\<close>, and the double \<open>3/4\<close>. The
  product is \<open>3221225471.25\<close>, a double as it is, which \<^verbatim>\<open>~~\<close> wraps to a negative
  index, and the element read is \<^verbatim>\<open>undefined\<close>.
\<close>

theorem choose_index_counterexample:
  "replicate 4294967295 empty_object \<noteq> []
   \<and> is_double (3 / 4)
   \<and> double_tilde (js_times (3 / 4) (of_nat (length (replicate 4294967295 empty_object))))
       = - 1073741825
   \<and> js_index (replicate 4294967295 empty_object)
        (double_tilde (js_times (3 / 4) (of_nat (length (replicate 4294967295 empty_object)))))
       = None"
  by (simp add: is_double_three_quarters js_times_wide double_tilde_wraps js_index_def)

section \<open>Construction and the accessor\<close>

lemma new_Undefined: "StatusUpdater_new v Undefined = Inr (blank\<lparr>pending := True\<rparr>)"
  by (simp add: StatusUpdater_new_def blank_def)

lemma new_Arr:
  "StatusUpdater_new v (Arr xs) = Inr (blank\<lparr>private_statuses := Some xs, pending := True\<rparr>)"
  by (simp add: StatusUpdater_new_def blank_def)

lemma new_Str_valid:
  "u \<noteq> [] \<Longrightarrow> v u \<Longrightarrow>
    StatusUpdater_new v (Str u) = Inr (blank\<lparr>statusUrl := Some u, pending := True\<rparr>)"
  by (simp add: StatusUpdater_new_def blank_def)

lemma new_Str_invalid:
  "u \<noteq> [] \<Longrightarrow> \<not> v u \<Longrightarrow> StatusUpdater_new v (Str u) = Inl (Error ''Invalid statuses URL'')"
  by (simp add: StatusUpdater_new_def)

lemma new_falsy: "\<not> truthy a \<Longrightarrow> StatusUpdater_new v a = Inr (blank\<lparr>pending := True\<rparr>)"
  by (simp add: StatusUpdater_new_def blank_def)

lemma new_other:
  "truthy a \<Longrightarrow> \<forall>u. a \<noteq> Str u \<Longrightarrow> \<forall>xs. a \<noteq> Arr xs
    \<Longrightarrow> StatusUpdater_new v a = Inl (Error ''Invalid status options.'')"
  by (cases a) (simp_all add: StatusUpdater_new_def)

lemma new_fresh:
  assumes "StatusUpdater_new v a = Inr s"
  shows "\<not> isReady s" and "pending s"
  using assms by (auto simp: StatusUpdater_new_def split: if_splits sum.splits)

lemma statuses_not_ready: "\<not> isReady s \<Longrightarrow> statuses s = Some defaultStatuses"
  by (simp add: statuses_def)

lemma statuses_ready: "isReady s \<Longrightarrow> statuses s = private_statuses s"
  by (simp add: statuses_def)

text \<open>
  C1: constructed with neither a list nor a URL, the updater should serve the seven
  built-in templates once it is READY. The code at that input: the constructor
  assigns nothing to \<^verbatim>\<open>_statuses\<close>, \<^verbatim>\<open>_getStatuses\<close> returns the default list without
  storing it, \<^verbatim>\<open>_init\<close> sets \<^verbatim>\<open>isReady\<close>, and from then on the accessor returns the
  unassigned field: \<^verbatim>\<open>undefined\<close> instead of the default pool it served before.
\<close>

theorem default_pool_not_installed:
  "StatusUpdater_new v Undefined = Inr (blank\<lparr>pending := True\<rparr>)
   \<and> statuses (blank\<lparr>pending := True\<rparr>) = Some defaultStatuses
   \<and> isReady (init out (blank\<lparr>pending := True\<rparr>))
   \<and> statuses (init out (blank\<lparr>pending := True\<rparr>)) = None"
  by (simp add: new_Undefined statuses_def init_def getStatuses_def blank_def)

lemma statuses_after_fetch:
  "u \<noteq> [] \<Longrightarrow>
    statuses (init (FetchOk d) (blank\<lparr>statusUrl := Some u, pending := True\<rparr>)) = Some d"
  by (simp add: statuses_def init_def getStatuses_def blank_def)

text \<open>
  C3: the accessor \<^verbatim>\<open>statuses\<close> should return the default pool while the updater is
  not READY and the resolved or custom pool once it is READY, for every updater. The
  code at an updater constructed with no argument: before readiness the accessor
  returns the default pool; the pool that \<^verbatim>\<open>_getStatuses\<close> resolves to is the default
  list; once READY the accessor returns \<^verbatim>\<open>undefined\<close>, not that pool. At an updater
  constructed with an inline array the code does what is asked: the default pool
  before readiness, exactly the array after.
\<close>

theorem accessor_loses_resolved_defaults:
  "StatusUpdater_new v Undefined = Inr (blank\<lparr>pending := True\<rparr>)
   \<and> statuses (blank\<lparr>pending := True\<rparr>) = Some defaultStatuses
   \<and> getStatuses out (blank\<lparr>pending := True\<rparr>) = Inr (defaultStatuses, blank\<lparr>pending := True\<rparr>)
   \<and> isReady (init out (blank\<lparr>pending := True\<rparr>))
   \<and> statuses (init out (blank\<lparr>pending := True\<rparr>)) = None
   \<and> StatusUpdater_new v (Arr xs) = Inr (blank\<lparr>private_statuses := Some xs, pending := True\<rparr>)
   \<and> statuses (blank\<lparr>private_statuses := Some xs, pending := True\<rparr>) = Some defaultStatuses
   \<and> isReady (init out (blank\<lparr>private_statuses := Some xs, pending := True\<rparr>))
   \<and> statuses (init out (blank\<lparr>private_statuses := Some xs, pending := True\<rparr>)) = Some xs"
  by (simp add: new_Undefined new_Arr statuses_def init_def getStatuses_def blank_def)

text \<open>
  C4, as amended: the constructor throws synchronously for every non-empty string
  that the validator rejects, and for every truthy argument that is neither a string
  nor an array; a string the validator accepts, an array and no argument do not throw.
\<close>

theorem constructor_validation:
  "(u \<noteq> [] \<and> \<not> v u \<longrightarrow> StatusUpdater_new v (Str u) = Inl (Error ''Invalid statuses URL''))
   \<and> (truthy a \<and> (\<forall>t. a \<noteq> Str t) \<and> (\<forall>xs. a \<noteq> Arr xs) \<longrightarrow>
        StatusUpdater_new v a = Inl (Error ''Invalid status options.''))
   \<and> (v u \<longrightarrow> (\<exists>s. StatusUpdater_new v (Str u) = Inr s))
   \<and> (\<exists>s. StatusUpdater_new v (Arr ys) = Inr s)
   \<and> (\<exists>s. StatusUpdater_new v Undefined = Inr s)"
proof (intro conjI impI)
  show "StatusUpdater_new v (Str u) = Inl (Error ''Invalid statuses URL'')"
    if "u \<noteq> [] \<and> \<not> v u"
    using that by (simp add: new_Str_invalid)
  show "StatusUpdater_new v a = Inl (Error ''Invalid status options.'')"
    if "truthy a \<and> (\<forall>t. a \<noteq> Str t) \<and> (\<forall>xs. a \<noteq> Arr xs)"
    using that by (simp add: new_other)
  show "\<exists>s. StatusUpdater_new v (Str u) = Inr s" if "v u"
  proof (cases "u = []")
    case True
    then show ?thesis by (simp add: new_falsy)
  next
    case False
    then show ?thesis using that by (simp add: new_Str_valid)
  qed
  show "\<exists>s. StatusUpdater_new v (Arr ys) = Inr s" by (simp add: new_Arr)
  show "\<exists>s. StatusUpdater_new v Undefined = Inr s" by (simp add: new_Undefined)
qed

text \<open>
  C4, witness: the string \<^verbatim>\<open>'not a url'\<close> and the number 7 are rejected, the URL of
  the class's documentation is accepted.
\<close>

theorem constructor_validation_witness:
  "StatusUpdater_new isUrl (Str ''not a url'') = Inl (Error ''Invalid statuses URL'')
   \<and> StatusUpdater_new isUrl (Num 7) = Inl (Error ''Invalid status options.'')
   \<and> (\<exists>s. StatusUpdater_new isUrl (Str ''https://example.com/statuses.json'') = Inr s)"
proof -
  have bad: "''not a url'' \<noteq> [] \<and> \<not> isUrl ''not a url''" by (simp add: isUrl_def)
  have other: "truthy (Num 7) \<and> (\<forall>t. Num 7 \<noteq> Str t) \<and> (\<forall>xs. Num 7 \<noteq> Arr xs)" by simp
  have good: "isUrl ''https://example.com/statuses.json''" by (simp add: isUrl_def)
  from constructor_validation [of "''not a url''" isUrl "Num 7"] bad other
  have 1: "StatusUpdater_new isUrl (Str ''not a url'') = Inl (Error ''Invalid statuses URL'')"
    and 2: "StatusUpdater_new isUrl (Num 7) = Inl (Error ''Invalid status options.'')"
    by blast+
  from constructor_validation [of "''https://example.com/statuses.json''" isUrl "Num 7"] good
  have 3: "\<exists>s. StatusUpdater_new isUrl (Str ''https://example.com/statuses.json'') = Inr s"
    by blast
  from 1 2 3 show ?thesis by blast
qed

text \<open>
  C4, counterexample to the claim as stated: \<^verbatim>\<open>null\<close> is neither an array, a string
  nor \<^verbatim>\<open>undefined\<close>, and the empty string is a string that is not a URL; both are
  falsy, skip the validation and construct an updater as if no argument was given.
\<close>

theorem constructor_validation_counterexample:
  "StatusUpdater_new isUrl Null = Inr (blank\<lparr>pending := True\<rparr>)
   \<and> \<not> isUrl [] \<and> StatusUpdater_new isUrl (Str []) = Inr (blank\<lparr>pending := True\<rparr>)"
  by (simp add: new_falsy isUrl_def)

section \<open>Readiness over the lifetime of an updater\<close>

lemma init_keeps_ready: "isReady s \<Longrightarrow> isReady (init out s)"
  by (simp add: init_def getStatuses_def split: option.splits fetch_outcome.splits)

lemma init_not_pending: "\<not> pending (init out s)"
  by (simp add: init_def getStatuses_def split: option.splits fetch_outcome.splits)

lemma init_settled: "\<not> pending s \<Longrightarrow> init out s = s"
  by (simp add: init_def)

lemma step_keeps_ready: "isReady s \<Longrightarrow> isReady (step e s)"
  by (cases e) (simp_all add: init_keeps_ready)

lemma step_settled: "\<not> pending s \<Longrightarrow> step e s = s"
  by (cases e) (simp_all add: init_settled)

lemma step_no_settle: "\<not> is_settle e \<Longrightarrow> step e s = s"
  by (cases e) simp_all

lemma step_ready_settled:
  assumes "isReady s \<longrightarrow> \<not> pending s"
  shows "isReady (step e s) \<longrightarrow> \<not> pending (step e s)"
proof (cases e)
  case (Settle out)
  then show ?thesis by (simp add: init_not_pending)
next
  case ReadStatuses
  then show ?thesis using assms by simp
next
  case UpdateStatus
  then show ?thesis using assms by simp
qed

lemma states_head: "\<exists>ss. states s es = s # ss"
  by (cases es) simp_all

lemma falls_states: "falls (map isReady (states s es)) = 0"
proof (induction es arbitrary: s)
  case Nil
  show ?case by simp
next
  case (Cons e es)
  obtain ss where ss: "states (step e s) es = step e s # ss"
    using states_head by blast
  have "falls (map isReady (states (step e s) es)) = 0" by (rule Cons.IH)
  then show ?case
    using step_keeps_ready [of s e] by (simp add: ss)
qed

lemma rises_ready: "isReady s \<Longrightarrow> rises (map isReady (states s es)) = 0"
proof (induction es arbitrary: s)
  case Nil
  show ?case by simp
next
  case (Cons e es)
  obtain ss where ss: "states (step e s) es = step e s # ss"
    using states_head by blast
  have "isReady (step e s)" using Cons.prems by (rule step_keeps_ready)
  then have "rises (map isReady (states (step e s) es)) = 0" by (rule Cons.IH)
  then show ?case using Cons.prems by (simp add: ss)
qed

lemma rises_states: "rises (map isReady (states s es)) \<le> 1"
proof (induction es arbitrary: s)
  case Nil
  show ?case by simp
next
  case (Cons e es)
  obtain ss where ss: "states (step e s) es = step e s # ss"
    using states_head by blast
  show ?case
  proof (cases "isReady (step e s)")
    case True
    then have "rises (map isReady (states (step e s) es)) = 0" by (rule rises_ready)
    then show ?thesis by (simp add: ss)
  next
    case False
    have "rises (map isReady (states (step e s) es)) \<le> 1" by (rule Cons.IH)
    then show ?thesis using False by (simp add: ss)
  qed
qed

lemma ready_settled_states:
  "isReady s \<longrightarrow> \<not> pending s \<Longrightarrow> \<forall>x \<in> set (states s es). isReady x \<longrightarrow> \<not> pending x"
proof (induction es arbitrary: s)
  case Nil
  then show ?case by simp
next
  case (Cons e es)
  have "isReady (step e s) \<longrightarrow> \<not> pending (step e s)"
    using Cons.prems by (rule step_ready_settled)
  then have "\<forall>x \<in> set (states (step e s) es). isReady x \<longrightarrow> \<not> pending x" by (rule Cons.IH)
  then show ?case using Cons.prems by simp
qed

lemma states_no_settle:
  "\<forall>e \<in> set es. \<not> is_settle e \<Longrightarrow> run s es = s \<and> (\<forall>x \<in> set (states s es). x = s)"
  by (induction es arbitrary: s) (simp_all add: step_no_settle)

lemma states_settled:
  "\<not> pending s \<Longrightarrow> \<forall>x \<in> set (states s es). x = s"
  by (induction es arbitrary: s) (simp_all add: step_settled)

lemma set_states_append:
  "set (states s (es1 @ es2)) = set (states s es1) \<union> set (states (run s es1) es2)"
proof (induction es1 arbitrary: s)
  case Nil
  obtain ss where "states s es2 = s # ss" using states_head by blast
  then show ?case by auto
next
  case (Cons e es1)
  then show ?case by simp
qed

lemma failed_fetch_state:
  assumes "u \<noteq> []" and "StatusUpdater_new v (Str u) = Inr s0"
  shows "init (FetchFail err) s0 = s0\<lparr>pending := False\<rparr>"
  using assms
  by (auto simp: StatusUpdater_new_def init_def getStatuses_def blank_def split: if_splits)

text \<open>
  C6: the readiness flag of a constructed updater starts false; along every sequence
  of events it never goes from true to false and goes from false to true at most
  once; whenever it is true the promise of the construction-time initialisation has
  settled, and it is true at the end of a run only if a settling event is in the run.
  For an updater constructed with a URL whose fetch fails, in every state before and
  after the failure the flag is false and \<^verbatim>\<open>statuses\<close> returns the default pool,
  whatever events follow.
\<close>

theorem readiness_lifetime:
  assumes new: "StatusUpdater_new v a = Inr s0"
  shows "\<not> isReady s0
    \<and> falls (map isReady (states s0 es)) = 0
    \<and> rises (map isReady (states s0 es)) \<le> 1
    \<and> (\<forall>s \<in> set (states s0 es). isReady s \<longrightarrow> \<not> pending s)
    \<and> (isReady (run s0 es) \<longrightarrow> (\<exists>e \<in> set es. is_settle e))
    \<and> (a = Str u \<and> u \<noteq> [] \<and> (\<forall>e \<in> set es1. \<not> is_settle e) \<longrightarrow>
         (\<forall>s \<in> set (states s0 (es1 @ Settle (FetchFail err) # es2)).
            \<not> isReady s \<and> statuses s = Some defaultStatuses))"
proof (intro conjI impI)
  show fresh: "\<not> isReady s0" using new by (rule new_fresh(1))
  show "falls (map isReady (states s0 es)) = 0" by (rule falls_states)
  show "rises (map isReady (states s0 es)) \<le> 1" by (rule rises_states)
  show "\<forall>s \<in> set (states s0 es). isReady s \<longrightarrow> \<not> pending s"
    using fresh by (intro ready_settled_states) simp
  show "\<exists>e \<in> set es. is_settle e" if "isReady (run s0 es)"
  proof (rule ccontr)
    assume "\<not> (\<exists>e \<in> set es. is_settle e)"
    then have "run s0 es = s0" using states_no_settle [of es s0] by simp
    with that fresh show False by simp
  qed
next
  assume "a = Str u \<and> u \<noteq> [] \<and> (\<forall>e \<in> set es1. \<not> is_settle e)"
  then have a: "a = Str u" and u: "u \<noteq> []" and quiet: "\<forall>e \<in> set es1. \<not> is_settle e"
    by simp_all
  have fresh: "\<not> isReady s0" using new by (rule new_fresh(1))
  let ?s1 = "s0\<lparr>pending := False\<rparr>"
  have failed: "init (FetchFail err) s0 = ?s1"
    using u new unfolding a by (rule failed_fetch_state)
  have before: "run s0 es1 = s0" "\<forall>x \<in> set (states s0 es1). x = s0"
    using states_no_settle [OF quiet, of s0] by simp_all
  have after: "\<forall>x \<in> set (states ?s1 es2). x = ?s1"
    by (rule states_settled) simp
  have "set (states s0 (es1 @ Settle (FetchFail err) # es2))
      = set (states s0 es1) \<union> set (states s0 (Settle (FetchFail err) # es2))"
    by (simp only: set_states_append before(1))
  then have all: "\<forall>x \<in> set (states s0 (es1 @ Settle (FetchFail err) # es2)). x = s0 \<or> x = ?s1"
    using before(2) after by (auto simp: failed)
  show "\<forall>s \<in> set (states s0 (es1 @ Settle (FetchFail err) # es2)).
          \<not> isReady s \<and> statuses s = Some defaultStatuses"
  proof
    fix s assume "s \<in> set (states s0 (es1 @ Settle (FetchFail err) # es2))"
    with all have "s = s0 \<or> s = ?s1" by blast
    then have "\<not> isReady s" using fresh by auto
    then show "\<not> isReady s \<and> statuses s = Some defaultStatuses"
      by (simp add: statuses_not_ready)
  qed
qed


lemma sample_url_new:
  "StatusUpdater_new isUrl (Str ''https://example.com/statuses.json'')
    = Inr (blank\<lparr>statusUrl := Some ''https://example.com/statuses.json'', pending := True\<rparr>)"
  by (simp add: new_Str_valid isUrl_def)

text \<open>
  C6, witness: an updater constructed with a URL. In the first run the fetch
  succeeds: the flag rises once, at the settling event, and a later settling event
  changes nothing. In the second run the fetch fails: the flag stays false and the
  accessor returns the default pool in all five states.
\<close>

theorem readiness_lifetime_witness:
  "StatusUpdater_new isUrl (Str ''https://example.com/statuses.json'')
     = Inr (blank\<lparr>statusUrl := Some ''https://example.com/statuses.json'', pending := True\<rparr>)
   \<and> map isReady (states (blank\<lparr>statusUrl := Some ''https://example.com/statuses.json'', pending := True\<rparr>)
        [ReadStatuses, Settle (FetchOk [template ''LISTENING'' ''music'']), UpdateStatus,
         Settle (FetchFail (Error ''timeout''))])
       = [False, False, True, True, True]
   \<and> rises (map isReady (states (blank\<lparr>statusUrl := Some ''https://example.com/statuses.json'', pending := True\<rparr>)
        [ReadStatuses, Settle (FetchOk [template ''LISTENING'' ''music'']), UpdateStatus,
         Settle (FetchFail (Error ''timeout''))])) = 1
   \<and> is_settle (Settle (FetchOk [template ''LISTENING'' ''music'']))
   \<and> map isReady (states (blank\<lparr>statusUrl := Some ''https://example.com/statuses.json'', pending := True\<rparr>)
        ([ReadStatuses] @ Settle (FetchFail (Error ''timeout''))
           # [UpdateStatus, Settle (FetchOk [template ''LISTENING'' ''music''])]))
       = [False, False, False, False, False]
   \<and> map statuses (states (blank\<lparr>statusUrl := Some ''https://example.com/statuses.json'', pending := True\<rparr>)
        ([ReadStatuses] @ Settle (FetchFail (Error ''timeout''))
           # [UpdateStatus, Settle (FetchOk [template ''LISTENING'' ''music''])]))
       = [Some defaultStatuses, Some defaultStatuses, Some defaultStatuses, Some defaultStatuses,
          Some defaultStatuses]"
proof -
  let ?u = "''https://example.com/statuses.json''"
  let ?s0 = "blank\<lparr>statusUrl := Some ?u, pending := True\<rparr>"
  let ?es = "[ReadStatuses, Settle (FetchOk [template ''LISTENING'' ''music'']), UpdateStatus,
         Settle (FetchFail (Error ''timeout''))]"
  have quiet: "Str ?u = Str ?u \<and> ?u \<noteq> [] \<and> (\<forall>e \<in> set [ReadStatuses]. \<not> is_settle e)" by simp
  have ready: "isReady (run ?s0 ?es)"
    by (simp add: init_def getStatuses_def blank_def)
  from readiness_lifetime [OF sample_url_new, of ?es ?u "[ReadStatuses]" "Error ''timeout''"
      "[UpdateStatus, Settle (FetchOk [template ''LISTENING'' ''music''])]"] quiet ready
    sample_url_new
  show ?thesis
    by (simp add: init_def getStatuses_def blank_def statuses_def)
qed

section \<open>What the selection returns\<close>

lemma details_record:
  "details_of h p info =
    \<lparr>type = (if truthy_kind (type info) then type info else Some (KStr ''PLAYING'')),
     name = Some (if parse h p (name info) = [] then ''a game'' else parse h p (name info)),
     url = url info, shardID = shardID info\<rparr>"
  by (cases info) (simp add: details_of_def Let_def)

lemma defaulted_kind:
  "(if truthy_kind k then k else Some (KStr ''PLAYING'')) \<noteq> None"
  "(if truthy_kind k then k else Some (KStr ''PLAYING'')) \<noteq> Some (KStr [])"
  "(if truthy_kind k then k else Some (KStr ''PLAYING'')) \<noteq> Some (KNum 0)"
  by (cases k; auto)+

lemma chooseActivity_in_range:
  assumes "statuses s = Some pool" and "pool \<noteq> []" and "length pool \<le> 2 ^ 31"
    and "is_double r" and "0 \<le> r" and "r < 1"
  shows "chooseActivity h s w r =
     Inr (alloc (details_of h (parser w) (pool ! nat \<lfloor>js_times r (of_nat (length pool))\<rfloor>)) w)"
proof -
  have pos: "0 < length pool" using assms(2) by simp
  note idx = index_of_product [OF assms(4,5,6) pos assms(3)]
  have "js_index pool \<lfloor>js_times r (of_nat (length pool))\<rfloor>
      = Some (pool ! nat \<lfloor>js_times r (of_nat (length pool))\<rfloor>)"
    using idx(2,3) by (simp add: js_index_def)
  then show ?thesis
    by (simp add: chooseActivity_def assms(1) idx(1))
qed

text \<open>
  C2, as amended: for every non-empty pool of at most \<open>2^31\<close> templates that the
  accessor returns, and every double \<open>r\<close> with \<open>0 \<le> r < 1\<close> from the random source,
  \<^verbatim>\<open>_chooseActivity\<close> selects the template at index \<open>floor (r * length)\<close>, the product
  being the rounded product of doubles, and returns a new object: it is allocated at
  the first free address, every other object and the rest of the world are unchanged.
  Its kind is the template's, or \<^verbatim>\<open>'PLAYING'\<close> when the template's kind is unset (or
  otherwise falsy), so the returned kind is never unset, empty or zero; its name is
  the template's name rendered by the parser, or \<^verbatim>\<open>'a game'\<close> when the rendered name
  is empty; the other fields are copied.
\<close>

theorem chooseActivity_selects:
  assumes "statuses s = Some pool" and "pool \<noteq> []" and "length pool \<le> 2 ^ 31"
    and "is_double r" and "0 \<le> r" and "r < 1"
  shows "(let info = pool ! nat \<lfloor>js_times r (of_nat (length pool))\<rfloor>;
              kind = (if truthy_kind (type info) then type info else Some (KStr ''PLAYING''));
              rendered = parse h (parser w) (name info);
              details = \<lparr>type = kind,
                         name = Some (if rendered = [] then ''a game'' else rendered),
                         url = url info, shardID = shardID info\<rparr>
          in chooseActivity h s w r =
               Inr (next_ref w,
                    w\<lparr>heap := (heap w)(next_ref w := details), next_ref := Suc (next_ref w)\<rparr>)
             \<and> (type info = None \<longrightarrow> kind = Some (KStr ''PLAYING''))
             \<and> kind \<noteq> None \<and> kind \<noteq> Some (KStr []) \<and> kind \<noteq> Some (KNum 0))"
proof -
  let ?info = "pool ! nat \<lfloor>js_times r (of_nat (length pool))\<rfloor>"
  have res: "chooseActivity h s w r = Inr (alloc (details_of h (parser w) ?info) w)"
    using assms by (rule chooseActivity_in_range)
  show ?thesis
    unfolding Let_def res alloc_def details_record
    using defaulted_kind [of "type ?info"] by simp
qed

lemma string_of_42: "string_of_nat 42 = ''42''"
  by code_simp

lemma string_of_3: "string_of_nat 3 = ''3''"
  by code_simp

lemma string_of_7: "string_of_nat 7 = ''7''"
  by code_simp

lemma sample_parser:
  "parser (updateParserData sample_host sample_world)
     = [(''users'', ''42''), (''guilds'', ''3''), (''channels'', ''7''), (''prefix'', ''!'')]"
  by (simp add: updateParserData_def sample_host_def sample_world_def
        VariableParser_updateData_def string_of_42 string_of_3 string_of_7)

lemma sample_parse_users:
  "VariableParser_parse
     [(''users'', ''42''), (''guilds'', ''3''), (''channels'', ''7''), (''prefix'', ''!'')]
     (Some ''with {users} users'') = ''with 42 users''"
  by (simp add: VariableParser_parse_def)

lemma sample_parse_website:
  "VariableParser_parse
     [(''users'', ''42''), (''guilds'', ''3''), (''channels'', ''7''), (''prefix'', ''!'')]
     (Some ''{website}'') = ''{website}''"
  by (simp add: VariableParser_parse_def)

lemma sample_parse_empty: "VariableParser_parse d (Some []) = []"
  by (simp add: VariableParser_parse_def)

lemma sample_updater_statuses:
  "statuses sample_updater =
     Some [\<lparr>type = None, name = Some [], url = None, shardID = None\<rparr>,
           template ''PLAYING'' ''with {users} users'']"
  by (simp add: sample_updater_def init_def getStatuses_def blank_def statuses_def)

lemma fresh_updater_statuses: "statuses (blank\<lparr>pending := True\<rparr>) = Some defaultStatuses"
  by (simp add: statuses_def blank_def)

lemma js_times_half: "js_times (1 / 2) 2 = 1"
  by (simp add: js_times_def round_double_1)

lemma sample_world_next:
  "next_ref (updateParserData sample_host sample_world) = 1"
  by (simp add: updateParserData_def sample_world_def)

text \<open>
  C2, witness: with 42 users known to the parser, a pool of two templates, the first
  with no kind and an empty name, the second
  \<^verbatim>\<open>{ type: 'PLAYING', name: 'with {users} users' }\<close>: \<open>r = 0\<close> selects the first and
  gives \<^verbatim>\<open>'PLAYING'\<close> and \<^verbatim>\<open>'a game'\<close>, \<open>r = 1/2\<close> selects the second and gives
  \<^verbatim>\<open>'with 42 users'\<close>. In the default pool the double \<^verbatim>\<open>0.5714285714285714\<close>
  selects the fifth template, whose placeholder is unknown to the parser and stays.
\<close>

theorem chooseActivity_selects_witness:
  "is_double 0 \<and> is_double (1 / 2) \<and> is_double (2573485501354569 / 4503599627370496)
   \<and> chooseActivity sample_host sample_updater (updateParserData sample_host sample_world) 0
       = Inr (1, (updateParserData sample_host sample_world)
                  \<lparr>heap := (heap (updateParserData sample_host sample_world))
                     (1 := \<lparr>type = Some (KStr ''PLAYING''), name = Some ''a game'', url = None,
                            shardID = None\<rparr>),
                   next_ref := 2\<rparr>)
   \<and> chooseActivity sample_host sample_updater (updateParserData sample_host sample_world) (1 / 2)
       = Inr (1, (updateParserData sample_host sample_world)
                  \<lparr>heap := (heap (updateParserData sample_host sample_world))
                     (1 := \<lparr>type = Some (KStr ''PLAYING''), name = Some ''with 42 users'',
                            url = None, shardID = None\<rparr>),
                   next_ref := 2\<rparr>)
   \<and> chooseActivity sample_host (blank\<lparr>pending := True\<rparr>)
        (updateParserData sample_host sample_world) (2573485501354569 / 4503599627370496)
       = Inr (1, (updateParserData sample_host sample_world)
                  \<lparr>heap := (heap (updateParserData sample_host sample_world))
                     (1 := \<lparr>type = Some (KStr ''WATCHING''), name = Some ''{website}'',
                            url = None, shardID = None\<rparr>),
                   next_ref := 2\<rparr>)"
proof -
  let ?pool = "[\<lparr>type = None, name = Some [], url = None, shardID = None\<rparr>,
                template ''PLAYING'' ''with {users} users'']"
  let ?w = "updateParserData sample_host sample_world"
  let ?r = "2573485501354569 / 4503599627370496 :: rat"
  have pool: "?pool \<noteq> []" "length ?pool \<le> 2 ^ 31" by simp_all
  have dflt: "defaultStatuses \<noteq> []" "length defaultStatuses \<le> 2 ^ 31"
    by (simp_all add: defaultStatuses_def)
  have r0: "(0::rat) \<le> 0" "(0::rat) < 1" and r1: "(0::rat) \<le> 1 / 2" "(1 / 2 :: rat) < 1"
    and r2: "0 \<le> ?r" "?r < 1"
    by simp_all
  have len: "length defaultStatuses = 7" by (simp add: defaultStatuses_def)
  have fifth: "defaultStatuses ! 4 = template ''WATCHING'' ''{website}''"
    by (simp add: defaultStatuses_def)
  have first: "chooseActivity sample_host sample_updater ?w 0
      = Inr (1, ?w\<lparr>heap := (heap ?w)
                     (1 := \<lparr>type = Some (KStr ''PLAYING''), name = Some ''a game'', url = None,
                            shardID = None\<rparr>),
                   next_ref := 2\<rparr>)"
    using chooseActivity_selects [OF sample_updater_statuses pool is_double_0 r0,
        of sample_host ?w]
    by (simp add: Let_def js_times_0 sample_world_next)
       (simp add: sample_host_def sample_parse_empty)
  have second: "chooseActivity sample_host sample_updater ?w (1 / 2)
      = Inr (1, ?w\<lparr>heap := (heap ?w)
                     (1 := \<lparr>type = Some (KStr ''PLAYING''), name = Some ''with 42 users'',
                            url = None, shardID = None\<rparr>),
                   next_ref := 2\<rparr>)"
    using chooseActivity_selects [OF sample_updater_statuses pool is_double_half r1,
        of sample_host ?w]
    by (simp add: Let_def js_times_half sample_world_next sample_parser template_def)
       (simp add: sample_host_def sample_parse_users)
  have third: "chooseActivity sample_host (blank\<lparr>pending := True\<rparr>) ?w ?r
      = Inr (1, ?w\<lparr>heap := (heap ?w)
                     (1 := \<lparr>type = Some (KStr ''WATCHING''), name = Some ''{website}'',
                            url = None, shardID = None\<rparr>),
                   next_ref := 2\<rparr>)"
    using chooseActivity_selects [OF fresh_updater_statuses dflt is_double_sample r2,
        of sample_host ?w]
    by (simp add: Let_def len js_times_sample fifth sample_world_next sample_parser template_def)
       (simp add: sample_host_def sample_parse_website)
  from is_double_0 is_double_half is_double_sample first second third
  show ?thesis by (intro conjI)
qed

text \<open>
  C2, counterexample to the claim as stated (every pool held by the updater): an
  updater constructed with the empty array holds the empty pool once READY, and
  \<^verbatim>\<open>_chooseActivity\<close> then returns nothing: the element at index 0 is \<^verbatim>\<open>undefined\<close>
  and reading its \<^verbatim>\<open>type\<close> throws.
\<close>

theorem chooseActivity_empty_pool_counterexample:
  "StatusUpdater_new isUrl (Arr []) = Inr (blank\<lparr>private_statuses := Some [], pending := True\<rparr>)
   \<and> statuses (init (FetchOk []) (blank\<lparr>private_statuses := Some [], pending := True\<rparr>)) = Some []
   \<and> chooseActivity sample_host
        (init (FetchOk []) (blank\<lparr>private_statuses := Some [], pending := True\<rparr>))
        sample_world (1 / 2)
      = Inl (TypeError ''Cannot read property type of undefined'')"
  by (simp add: new_Arr chooseActivity_def statuses_def init_def getStatuses_def blank_def
        js_index_def)

section \<open>updateStatus: the shard id, the caller's object, the result\<close>

lemma attach_shard_zero: "attach_shard (Some 0) a w = attach_shard None a w"
  by (simp add: attach_shard_def)

lemma attach_shard_omitted: "attach_shard None a w = w"
  by (simp add: attach_shard_def)

lemma attach_shard_nonzero:
  "n \<noteq> 0 \<Longrightarrow>
    attach_shard (Some n) a w = w\<lparr>heap := (heap w)(a := (heap w a)\<lparr>shardID := Some (ShardNum n)\<rparr>)\<rparr>"
  by (simp add: attach_shard_def)

lemma attach_shard_frame:
  "next_ref (attach_shard sh a w) = next_ref w" "applied (attach_shard sh a w) = applied w"
  "parser (attach_shard sh a w) = parser w"
  by (simp_all add: attach_shard_def split: option.splits)

lemma updateParserData_frame:
  "heap (updateParserData h w) = heap w" "next_ref (updateParserData h w) = next_ref w"
  "applied (updateParserData h w) = applied w"
  by (simp_all add: updateParserData_def)

lemma chooseActivity_frame:
  assumes "chooseActivity h s w r = Inr (a, w')"
  shows "applied w' = applied w" and "a = next_ref w" and "next_ref w' = Suc (next_ref w)"
  using assms
  by (auto simp: chooseActivity_def alloc_def split: option.splits)

lemma updateStatus_explicit:
  "updateStatus h s w (Some a) shardId r =
    (Inr (setActivity h (heap (attach_shard shardId a (updateParserData h w)) a)),
     (attach_shard shardId a (updateParserData h w))
       \<lparr>applied := applied w @ [a]\<rparr>)"
  by (simp add: updateStatus_def Let_def attach_shard_frame updateParserData_frame)

lemma updateStatus_chosen:
  "chooseActivity h s (updateParserData h w) r = Inr (a, w2) \<Longrightarrow>
   updateStatus h s w None shardId r =
    (Inr (setActivity h (heap (attach_shard shardId a w2) a)),
     (attach_shard shardId a w2)\<lparr>applied := applied w @ [a]\<rparr>)"
  by (simp add: updateStatus_def Let_def attach_shard_frame updateParserData_frame
        chooseActivity_frame(1))

lemma updateStatus_throws:
  "chooseActivity h s (updateParserData h w) r = Inl e \<Longrightarrow>
   updateStatus h s w None shardId r = (Inl e, updateParserData h w)"
  by (simp add: updateStatus_def Let_def)

text \<open>
  C5: a shard id passed to \<^verbatim>\<open>updateStatus\<close> should appear as \<^verbatim>\<open>shardID\<close> on the
  activity handed to \<^verbatim>\<open>setActivity\<close>. The code at shard id 0, the first shard: the
  test \<^verbatim>\<open>if (shardId)\<close> is false, so the call behaves exactly as if the shard id was
  omitted; the caller's activity is left as it was and is applied without the shard.
  For the sample activity \<^verbatim>\<open>{ type: 'WATCHING', name: 'the logs' }\<close> the applied
  object has no \<^verbatim>\<open>shardID\<close>.
\<close>

theorem shard_zero_not_attached:
  "updateStatus h s w act (Some 0) r = updateStatus h s w act None r
   \<and> heap (snd (updateStatus h s w (Some a) (Some 0) r)) a = heap w a
   \<and> fst (updateStatus h s w (Some a) (Some 0) r) = Inr (setActivity h (heap w a))
   \<and> shardID (heap (snd (updateStatus sample_host s sample_world (Some 0) (Some 0) r)) 0) = None"
proof (intro conjI)
  show "updateStatus h s w act (Some 0) r = updateStatus h s w act None r"
    by (simp only: updateStatus_def attach_shard_zero)
  show "heap (snd (updateStatus h s w (Some a) (Some 0) r)) a = heap w a"
    by (simp add: updateStatus_explicit attach_shard_zero attach_shard_omitted
          updateParserData_frame)
  show "fst (updateStatus h s w (Some a) (Some 0) r) = Inr (setActivity h (heap w a))"
    by (simp add: updateStatus_explicit attach_shard_zero attach_shard_omitted
          updateParserData_frame)
  show "shardID (heap (snd (updateStatus sample_host s sample_world (Some 0) (Some 0) r)) 0) = None"
    by (simp add: updateStatus_explicit attach_shard_zero attach_shard_omitted
          updateParserData_frame)
       (simp add: sample_world_def template_def)
qed

text \<open>
  C10: called with an explicit activity and a non-zero shard id, \<^verbatim>\<open>updateStatus\<close>
  writes \<^verbatim>\<open>shardID\<close> onto the caller's own object: after the call the object at the
  caller's address carries the shard id and is otherwise unchanged, every other
  object is untouched, no object has been allocated, and it is that address that is
  handed to \<^verbatim>\<open>setActivity\<close>, whose outcome on the mutated object is the result.
\<close>

theorem explicit_activity_mutated_in_place:
  assumes "n \<noteq> 0" and "updateStatus h s w (Some a) (Some n) r = (res, w')"
  shows "heap w' a = (heap w a)\<lparr>shardID := Some (ShardNum n)\<rparr>
    \<and> (\<forall>b. b \<noteq> a \<longrightarrow> heap w' b = heap w b)
    \<and> next_ref w' = next_ref w
    \<and> applied w' = applied w @ [a]
    \<and> res = Inr (setActivity h (heap w' a))"
proof -
  let ?w1 = "updateParserData h w"
  let ?w3 = "?w1\<lparr>heap := (heap ?w1)(a := (heap ?w1 a)\<lparr>shardID := Some (ShardNum n)\<rparr>)\<rparr>"
  have "attach_shard (Some n) a ?w1 = ?w3" using assms(1) by (rule attach_shard_nonzero)
  with assms(2) have res: "res = Inr (setActivity h (heap ?w3 a))"
    and w': "w' = ?w3\<lparr>applied := applied w @ [a]\<rparr>"
    by (simp_all add: updateStatus_explicit)
  show ?thesis
    unfolding res w' by (simp add: updateParserData_frame)
qed

text \<open>
  C10, witness: the sample activity at address 0, passed with shard id 3.
\<close>

theorem explicit_activity_mutated_in_place_witness:
  "(3::int) \<noteq> 0
   \<and> heap sample_world 0 = template ''WATCHING'' ''the logs''
   \<and> fst (updateStatus sample_host sample_updater sample_world (Some 0) (Some 3) 0)
       = Inr (Inr ((template ''WATCHING'' ''the logs'')\<lparr>shardID := Some (ShardNum 3)\<rparr>))
   \<and> heap (snd (updateStatus sample_host sample_updater sample_world (Some 0) (Some 3) 0)) 0
       = (template ''WATCHING'' ''the logs'')\<lparr>shardID := Some (ShardNum 3)\<rparr>
   \<and> next_ref (snd (updateStatus sample_host sample_updater sample_world (Some 0) (Some 3) 0)) = 1
   \<and> applied (snd (updateStatus sample_host sample_updater sample_world (Some 0) (Some 3) 0)) = [0]"
proof -
  have n: "(3::int) \<noteq> 0" by simp
  have call: "updateStatus sample_host sample_updater sample_world (Some 0) (Some 3) 0
      = (fst (updateStatus sample_host sample_updater sample_world (Some 0) (Some 3) 0),
         snd (updateStatus sample_host sample_updater sample_world (Some 0) (Some 3) 0))"
    by simp
  have obj: "heap sample_world 0 = template ''WATCHING'' ''the logs''"
    by (simp add: sample_world_def)
  have log: "applied sample_world = []" "next_ref sample_world = 1"
    by (simp_all add: sample_world_def)
  from explicit_activity_mutated_in_place [OF n call] obj log n
  show ?thesis
    by (simp add: sample_host_def sample_setActivity_def template_def)
qed

lemma updateStatus_explicit_world:
  "updateStatus h s w (Some a) shardId r =
    (Inr (setActivity h
        (case shardId of
           None \<Rightarrow> heap w a
         | Some n \<Rightarrow> if n \<noteq> 0 then (heap w a)\<lparr>shardID := Some (ShardNum n)\<rparr> else heap w a)),
     w\<lparr>heap := (heap w)
          (a := (case shardId of
                   None \<Rightarrow> heap w a
                 | Some n \<Rightarrow>
                     if n \<noteq> 0 then (heap w a)\<lparr>shardID := Some (ShardNum n)\<rparr> else heap w a)),
       parser := updateData h (users w) (guilds w) (channels w) (parser w),
       applied := applied w @ [a]\<rparr>)"
  by (cases shardId)
     (simp_all add: updateStatus_explicit attach_shard_def updateParserData_def)

lemma updateStatus_chosen_world:
  assumes "statuses s = Some pool" and "pool \<noteq> []" and "length pool \<le> 2 ^ 31"
    and "is_double r" and "0 \<le> r" and "r < 1"
  shows "updateStatus h s w None shardId r =
    (let p' = updateData h (users w) (guilds w) (channels w) (parser w);
         info = pool ! nat \<lfloor>js_times r (of_nat (length pool))\<rfloor>;
         rendered = parse h p' (name info);
         obj = \<lparr>type = (if truthy_kind (type info) then type info else Some (KStr ''PLAYING'')),
                name = Some (if rendered = [] then ''a game'' else rendered),
                url = url info,
                shardID = (case shardId of
                             None \<Rightarrow> shardID info
                           | Some n \<Rightarrow> if n \<noteq> 0 then Some (ShardNum n) else shardID info)\<rparr>
     in (Inr (setActivity h obj),
         w\<lparr>heap := (heap w)(next_ref w := obj), next_ref := Suc (next_ref w), parser := p',
           applied := applied w @ [next_ref w]\<rparr>))"
proof -
  let ?w1 = "updateParserData h w"
  let ?info = "pool ! nat \<lfloor>js_times r (of_nat (length pool))\<rfloor>"
  have "chooseActivity h s ?w1 r = Inr (alloc (details_of h (parser ?w1) ?info) ?w1)"
    using assms by (rule chooseActivity_in_range)
  then have chosen: "chooseActivity h s ?w1 r
      = Inr (next_ref w, snd (alloc (details_of h (parser ?w1) ?info) ?w1))"
    by (simp add: alloc_def updateParserData_def)
  show ?thesis
    unfolding updateStatus_chosen [OF chosen] Let_def
    by (cases shardId)
       (simp_all add: attach_shard_def alloc_def details_record updateParserData_def)
qed

text \<open>
  C7: \<^verbatim>\<open>updateStatus\<close> returns exactly what \<^verbatim>\<open>setActivity\<close> returns for the resolved
  activity, be it the applied presence or a rejection. With an explicit activity the
  resolved activity is the caller's object, with the shard id written on it when one
  is given (and not 0); \<^verbatim>\<open>setActivity\<close> is called once, on that object. With no
  explicit activity and a pool the selection can read, it is the new object built
  from the selected template, rendered with the parser data of this call, with the
  shard id. In general, whenever the call returns, \<^verbatim>\<open>setActivity\<close> has been called
  exactly once and its outcome is the result; the only other way out is a synchronous
  throw of the selection, before \<^verbatim>\<open>setActivity\<close> is reached.
\<close>

theorem updateStatus_returns_host_outcome:
  "(let obj = (case shardId of
                 None \<Rightarrow> heap w a
               | Some n \<Rightarrow>
                   if n \<noteq> 0 then (heap w a)\<lparr>shardID := Some (ShardNum n)\<rparr> else heap w a)
    in updateStatus h s w (Some a) shardId r =
         (Inr (setActivity h obj),
          w\<lparr>heap := (heap w)(a := obj),
            parser := updateData h (users w) (guilds w) (channels w) (parser w),
            applied := applied w @ [a]\<rparr>))
   \<and> (statuses s = Some pool \<and> pool \<noteq> [] \<and> length pool \<le> 2 ^ 31
        \<and> is_double r \<and> 0 \<le> r \<and> r < 1 \<longrightarrow>
       (let p' = updateData h (users w) (guilds w) (channels w) (parser w);
            info = pool ! nat \<lfloor>js_times r (of_nat (length pool))\<rfloor>;
            rendered = parse h p' (name info);
            obj = \<lparr>type = (if truthy_kind (type info) then type info
                           else Some (KStr ''PLAYING'')),
                   name = Some (if rendered = [] then ''a game'' else rendered),
                   url = url info,
                   shardID = (case shardId of
                                None \<Rightarrow> shardID info
                              | Some n \<Rightarrow>
                                  if n \<noteq> 0 then Some (ShardNum n) else shardID info)\<rparr>
        in updateStatus h s w None shardId r =
             (Inr (setActivity h obj),
              w\<lparr>heap := (heap w)(next_ref w := obj), next_ref := Suc (next_ref w),
                parser := p', applied := applied w @ [next_ref w]\<rparr>)))
   \<and> (updateStatus h s w act shardId r = (res, w') \<longrightarrow>
        (\<forall>p. res = Inr p \<longrightarrow>
           (\<exists>b. applied w' = applied w @ [b] \<and> p = setActivity h (heap w' b)))
        \<and> (\<forall>e. res = Inl e \<longrightarrow>
              act = None \<and> chooseActivity h s (updateParserData h w) r = Inl e
              \<and> applied w' = applied w)
        \<and> (act \<noteq> None \<longrightarrow> (\<exists>p. res = Inr p)))"
proof (intro conjI impI)
  show "let obj = (case shardId of
                 None \<Rightarrow> heap w a
               | Some n \<Rightarrow>
                   if n \<noteq> 0 then (heap w a)\<lparr>shardID := Some (ShardNum n)\<rparr> else heap w a)
    in updateStatus h s w (Some a) shardId r =
         (Inr (setActivity h obj),
          w\<lparr>heap := (heap w)(a := obj),
            parser := updateData h (users w) (guilds w) (channels w) (parser w),
            applied := applied w @ [a]\<rparr>)"
    unfolding Let_def by (rule updateStatus_explicit_world)
next
  assume "statuses s = Some pool \<and> pool \<noteq> [] \<and> length pool \<le> 2 ^ 31
        \<and> is_double r \<and> 0 \<le> r \<and> r < 1"
  then have hyps: "statuses s = Some pool" "pool \<noteq> []" "length pool \<le> 2 ^ 31"
    "is_double r" "0 \<le> r" "r < 1" by simp_all
  show "let p' = updateData h (users w) (guilds w) (channels w) (parser w);
            info = pool ! nat \<lfloor>js_times r (of_nat (length pool))\<rfloor>;
            rendered = parse h p' (name info);
            obj = \<lparr>type = (if truthy_kind (type info) then type info
                           else Some (KStr ''PLAYING'')),
                   name = Some (if rendered = [] then ''a game'' else rendered),
                   url = url info,
                   shardID = (case shardId of
                                None \<Rightarrow> shardID info
                              | Some n \<Rightarrow>
                                  if n \<noteq> 0 then Some (ShardNum n) else shardID info)\<rparr>
        in updateStatus h s w None shardId r =
             (Inr (setActivity h obj),
              w\<lparr>heap := (heap w)(next_ref w := obj), next_ref := Suc (next_ref w),
                parser := p', applied := applied w @ [next_ref w]\<rparr>)"
    unfolding updateStatus_chosen_world [OF hyps] Let_def by (rule refl)
next
  assume call: "updateStatus h s w act shardId r = (res, w')"
  show "\<forall>p. res = Inr p \<longrightarrow>
           (\<exists>b. applied w' = applied w @ [b] \<and> p = setActivity h (heap w' b))"
  proof (cases act)
    case (Some a)
    with call show ?thesis by (auto simp: updateStatus_explicit)
  next
    case None
    show ?thesis
    proof (cases "chooseActivity h s (updateParserData h w) r")
      case (Inl e)
      with call None show ?thesis by (auto simp: updateStatus_throws)
    next
      case (Inr aw)
      obtain a w2 where aw: "aw = (a, w2)" by (cases aw)
      from call None Inr show ?thesis
        unfolding aw by (auto simp: updateStatus_chosen)
    qed
  qed
  show "\<forall>e. res = Inl e \<longrightarrow>
              act = None \<and> chooseActivity h s (updateParserData h w) r = Inl e
              \<and> applied w' = applied w"
  proof (cases act)
    case (Some a)
    with call show ?thesis by (auto simp: updateStatus_explicit)
  next
    case None
    show ?thesis
    proof (cases "chooseActivity h s (updateParserData h w) r")
      case (Inl e)
      with call None show ?thesis
        by (auto simp: updateStatus_throws updateParserData_frame)
    next
      case (Inr aw)
      obtain a w2 where aw: "aw = (a, w2)" by (cases aw)
      from call None Inr show ?thesis
        unfolding aw by (auto simp: updateStatus_chosen)
    qed
  qed
  show "\<exists>p. res = Inr p" if "act \<noteq> None"
    using that call by (auto simp: updateStatus_explicit)
qed

text \<open>
  C7, witness: the sample host resolves to the activity it is given and rejects an
  activity without a name. The sample activity at address 0 comes back as the
  applied presence; an object without a name at address 0 comes back as the
  rejection; with no explicit activity, \<open>r = 1/2\<close> and shard id 2, the object
  applied, and returned as the presence, is the second template of the pool rendered
  with the 42 users of this call and carrying shard 2, at the new address 1. An
  updater that is READY without a pool throws in the selection, and nothing is applied.
\<close>

theorem updateStatus_returns_host_outcome_witness:
  "updateStatus sample_host sample_updater sample_world (Some 0) None 0
     = (Inr (Inr (template ''WATCHING'' ''the logs'')),
        sample_world\<lparr>heap := (heap sample_world)(0 := template ''WATCHING'' ''the logs''),
          parser := [(''users'', ''42''), (''guilds'', ''3''), (''channels'', ''7''),
                     (''prefix'', ''!'')],
          applied := [0]\<rparr>)
   \<and> fst (updateStatus sample_host sample_updater
            (sample_world\<lparr>heap := (heap sample_world)(0 := empty_object)\<rparr>) (Some 0) None 0)
       = Inr (Inl (Error ''Missing name''))
   \<and> is_double (1 / 2)
   \<and> updateStatus sample_host sample_updater sample_world None (Some 2) (1 / 2)
       = (Inr (Inr \<lparr>type = Some (KStr ''PLAYING''), name = Some ''with 42 users'', url = None,
                    shardID = Some (ShardNum 2)\<rparr>),
          sample_world\<lparr>heap := (heap sample_world)
              (1 := \<lparr>type = Some (KStr ''PLAYING''), name = Some ''with 42 users'', url = None,
                     shardID = Some (ShardNum 2)\<rparr>),
            next_ref := 2,
            parser := [(''users'', ''42''), (''guilds'', ''3''), (''channels'', ''7''),
                       (''prefix'', ''!'')],
            applied := [1]\<rparr>)
   \<and> updateStatus sample_host (init (FetchOk []) (blank\<lparr>pending := True\<rparr>)) sample_world
        None (Some 2) (1 / 2)
       = (Inl (TypeError ''Cannot read property length of undefined''),
          updateParserData sample_host sample_world)
   \<and> applied (updateParserData sample_host sample_world) = applied sample_world"
proof -
  let ?pool = "[\<lparr>type = None, name = Some [], url = None, shardID = None\<rparr>,
                template ''PLAYING'' ''with {users} users'']"
  let ?w = "sample_world\<lparr>heap := (heap sample_world)(0 := empty_object)\<rparr>"
  have data: "updateData sample_host (users sample_world) (guilds sample_world)
        (channels sample_world) (parser sample_world)
      = [(''users'', ''42''), (''guilds'', ''3''), (''channels'', ''7''), (''prefix'', ''!'')]"
    using sample_parser by (simp add: updateParserData_def)
  have obj: "heap sample_world 0 = template ''WATCHING'' ''the logs''"
    and log: "applied sample_world = []" and nxt: "next_ref sample_world = 1"
    by (simp_all add: sample_world_def)
  have host: "setActivity sample_host = sample_setActivity" by (simp add: sample_host_def)
  have hyp: "statuses sample_updater = Some ?pool \<and> ?pool \<noteq> [] \<and> length ?pool \<le> 2 ^ 31
      \<and> is_double (1 / 2) \<and> (0::rat) \<le> 1 / 2 \<and> (1 / 2 :: rat) < 1"
    by (simp add: sample_updater_statuses is_double_half)
  note thm1 = updateStatus_returns_host_outcome [where shardId = None and w = sample_world
      and a = 0 and h = sample_host and s = sample_updater and r = 0]
  note thm2 = updateStatus_returns_host_outcome [where shardId = None and w = ?w
      and a = 0 and h = sample_host and s = sample_updater and r = 0]
  note thm3 = updateStatus_returns_host_outcome [where shardId = "Some 2" and w = sample_world
      and h = sample_host and s = sample_updater and r = "1 / 2" and pool = ?pool]
  have first: "updateStatus sample_host sample_updater sample_world (Some 0) None 0
     = (Inr (Inr (template ''WATCHING'' ''the logs'')),
        sample_world\<lparr>heap := (heap sample_world)(0 := template ''WATCHING'' ''the logs''),
          parser := [(''users'', ''42''), (''guilds'', ''3''), (''channels'', ''7''),
                     (''prefix'', ''!'')],
          applied := [0]\<rparr>)"
    using thm1 [THEN conjunct1]
    by (simp add: Let_def data obj log host sample_setActivity_def template_def)
  have second: "fst (updateStatus sample_host sample_updater ?w (Some 0) None 0)
       = Inr (Inl (Error ''Missing name''))"
    using thm2 [THEN conjunct1]
    by (simp add: Let_def host sample_setActivity_def empty_object_def)
  have third: "updateStatus sample_host sample_updater sample_world None (Some 2) (1 / 2)
       = (Inr (Inr \<lparr>type = Some (KStr ''PLAYING''), name = Some ''with 42 users'', url = None,
                    shardID = Some (ShardNum 2)\<rparr>),
          sample_world\<lparr>heap := (heap sample_world)
              (1 := \<lparr>type = Some (KStr ''PLAYING''), name = Some ''with 42 users'', url = None,
                     shardID = Some (ShardNum 2)\<rparr>),
            next_ref := 2,
            parser := [(''users'', ''42''), (''guilds'', ''3''), (''channels'', ''7''),
                       (''prefix'', ''!'')],
            applied := [1]\<rparr>)"
    using thm3 [THEN conjunct2, THEN conjunct1, rule_format, OF hyp]
    by (simp add: Let_def data log nxt host js_times_half template_def sample_setActivity_def)
       (simp add: sample_host_def sample_parse_users)
  let ?lost = "init (FetchOk []) (blank\<lparr>pending := True\<rparr>)"
  have fourth: "updateStatus sample_host ?lost sample_world None (Some 2) (1 / 2)
       = (Inl (TypeError ''Cannot read property length of undefined''),
          updateParserData sample_host sample_world)"
    by (simp add: updateStatus_def chooseActivity_def statuses_def init_def getStatuses_def
          blank_def)
  from updateStatus_returns_host_outcome [where h = sample_host and s = ?lost
      and w = sample_world and act = None and shardId = "Some 2" and r = "1 / 2"
      and res = "Inl (TypeError ''Cannot read property length of undefined'')"
      and w' = "updateParserData sample_host sample_world", THEN conjunct2, THEN conjunct2,
      rule_format, OF fourth]
  have fifth: "applied (updateParserData sample_host sample_world) = applied sample_world"
    by simp
  from first second is_double_half third fourth fifth show ?thesis by (intro conjI)
qed

lemma shard_attached_when_nonzero:
  assumes "n \<noteq> 0" and "updateStatus h s w act (Some n) r = (Inr p, w')"
  shows "\<exists>a. applied w' = applied w @ [a] \<and> shardID (heap w' a) = Some (ShardNum n)"
proof (cases act)
  case (Some a)
  with assms show ?thesis
    by (auto simp: updateStatus_explicit attach_shard_nonzero)
next
  case None
  show ?thesis
  proof (cases "chooseActivity h s (updateParserData h w) r")
    case (Inl e)
    with assms(2) None show ?thesis by (simp add: updateStatus_throws)
  next
    case (Inr aw)
    obtain a w2 where aw: "aw = (a, w2)" by (cases aw)
    from assms None Inr show ?thesis
      unfolding aw by (auto simp: updateStatus_chosen attach_shard_nonzero)
  qed
qed

lemma shard_untouched_when_omitted:
  "updateStatus h s w (Some a) None r = (res, w') \<Longrightarrow> heap w' = heap w"
  by (auto simp: updateStatus_explicit attach_shard_omitted updateParserData_frame)

section \<open>Delivery of a log text\<close>

lemma write_sent:
  "level \<le> webhookLevel env \<Longrightarrow> \<exists>m. WebhookLogger_write env level tag cleaned = Some m"
  by (simp add: WebhookLogger_write_def Let_def split: prod.splits)

lemma write_inline:
  assumes "WebhookLogger_write env level tag cleaned = Some m" and "length cleaned \<le> 2048"
  shows "map description (embeds m) = [Some cleaned]" and "files m = None"
  using assms by (auto simp: WebhookLogger_write_def Let_def split: if_splits)

lemma write_file:
  assumes "WebhookLogger_write env level tag cleaned = Some m" and "2048 < length cleaned"
  shows "map description (embeds m) = [Some ''Data is too long, falling back to file.'']"
    and "files m = Some [\<lparr>attachment = cleaned, file_name = ''file.txt''\<rparr>]"
  using assms by (auto simp: WebhookLogger_write_def Let_def split: if_splits)

lemma write_delivery:
  assumes "WebhookLogger_write env level tag cleaned = Some m"
  shows "delivery_of m = (if length cleaned \<le> 2048 then Inline else AsFile)"
proof (cases "length cleaned \<le> 2048")
  case True
  with write_inline(2) [OF assms] show ?thesis by (simp add: delivery_of_def)
next
  case False
  then have "2048 < length cleaned" by simp
  from write_file(2) [OF assms this] False show ?thesis by (simp add: delivery_of_def)
qed

lemma write_modes:
  assumes "WebhookLogger_write env level tag cleaned = Some m"
  shows "(length cleaned \<le> 2048 \<longrightarrow>
            map description (embeds m) = [Some cleaned] \<and> files m = None)
    \<and> (2048 < length cleaned \<longrightarrow>
            map description (embeds m) = [Some ''Data is too long, falling back to file.'']
            \<and> files m = Some [\<lparr>attachment = cleaned, file_name = ''file.txt''\<rparr>])"
  using write_inline [OF assms] write_file [OF assms] by blast

text \<open>
  C8: a text that passes the level test of the webhook logger is sent; if it has at
  most 2048 characters it is the description of the embed and no file is attached;
  if it is longer the description is the fallback notice and the whole text is
  attached as \<^verbatim>\<open>file.txt\<close>; and any other text of the same length, whatever its
  level, tag and logger, is delivered in the same mode.
\<close>

theorem write_delivery_by_length:
  assumes "level \<le> webhookLevel env"
  shows "\<exists>m. WebhookLogger_write env level tag cleaned = Some m
    \<and> (length cleaned \<le> 2048 \<longrightarrow>
            map description (embeds m) = [Some cleaned] \<and> files m = None)
    \<and> (2048 < length cleaned \<longrightarrow>
            map description (embeds m) = [Some ''Data is too long, falling back to file.'']
            \<and> files m = Some [\<lparr>attachment = cleaned, file_name = ''file.txt''\<rparr>])
    \<and> (\<forall>env' level' tag' cleaned' m'.
          WebhookLogger_write env' level' tag' cleaned' = Some m'
          \<and> length cleaned' = length cleaned \<longrightarrow> delivery_of m' = delivery_of m)"
proof -
  from assms obtain m where m: "WebhookLogger_write env level tag cleaned = Some m"
    using write_sent by blast
  have same: "delivery_of m' = delivery_of m"
    if "WebhookLogger_write env' level' tag' cleaned' = Some m' \<and> length cleaned' = length cleaned"
    for env' level' tag' cleaned' m'
  proof -
    from that have w: "WebhookLogger_write env' level' tag' cleaned' = Some m'"
      and l: "length cleaned' = length cleaned" by simp_all
    show ?thesis by (simp add: write_delivery [OF w] write_delivery [OF m] l)
  qed
  have all: "\<forall>env' level' tag' cleaned' m'.
      WebhookLogger_write env' level' tag' cleaned' = Some m'
      \<and> length cleaned' = length cleaned \<longrightarrow> delivery_of m' = delivery_of m"
    using same by (intro allI impI)
  show ?thesis
    by (rule exI [of _ m]) (intro conjI m all write_modes [OF m, THEN conjunct1]
          write_modes [OF m, THEN conjunct2])
qed

lemma write_short:
  "WebhookLogger_write sample_logger 3 ''CLIENT'' ''ready'' =
    Some \<lparr>avatarURL = ''https://cdn.discordapp.com/avatars/237993001828352001/a_04c3221e95f15ebcec7fbb96c6ec1146.gif?size=512'',
          embeds = [\<lparr>timestamp = Some 0, color = Some 3, footer = Some ''main'',
                     description = Some ''ready'', title = Some ''CLIENT''\<rparr>],
          username = ''Emoji Stealer Status'', files = None\<rparr>"
  by (simp add: WebhookLogger_write_def sample_logger_def new_embed_def)

lemma write_long:
  "WebhookLogger_write sample_logger 3 [] (replicate 2049 CHR ''x'') =
    Some \<lparr>avatarURL = ''https://cdn.discordapp.com/avatars/237993001828352001/a_04c3221e95f15ebcec7fbb96c6ec1146.gif?size=512'',
          embeds = [\<lparr>timestamp = Some 0, color = Some 3, footer = Some ''main'',
                     description = Some ''Data is too long, falling back to file.'',
                     title = None\<rparr>],
          username = ''Emoji Stealer Status'',
          files = Some [\<lparr>attachment = replicate 2049 CHR ''x'', file_name = ''file.txt''\<rparr>]\<rparr>"
  by (simp add: WebhookLogger_write_def sample_logger_def new_embed_def)

text \<open>
  C8, witness: a text of 5 characters is delivered inline, one of 2049 characters as
  a file.
\<close>

theorem write_delivery_by_length_witness:
  "(3::nat) \<le> webhookLevel sample_logger
   \<and> (\<exists>m. WebhookLogger_write sample_logger 3 ''CLIENT'' ''ready'' = Some m
        \<and> map description (embeds m) = [Some ''ready''] \<and> files m = None
        \<and> delivery_of m = Inline)
   \<and> (\<exists>m. WebhookLogger_write sample_logger 3 [] (replicate 2049 CHR ''x'') = Some m
        \<and> map description (embeds m) = [Some ''Data is too long, falling back to file.'']
        \<and> files m = Some [\<lparr>attachment = replicate 2049 CHR ''x'', file_name = ''file.txt''\<rparr>]
        \<and> delivery_of m = AsFile)"
proof -
  have gate: "(3::nat) \<le> webhookLevel sample_logger" by (simp add: sample_logger_def)
  have short: "length ''ready'' \<le> 2048" by simp
  have long: "2048 < length (replicate 2049 CHR ''x'')" by simp
  from write_delivery_by_length [OF gate, of "''CLIENT''" "''ready''"] short
    write_delivery_by_length [OF gate, of "[]" "replicate 2049 CHR ''x''"] long gate
  show ?thesis
    by (simp add: write_short write_long delivery_of_def)
qed

end
